theory Spec2Isabelle
  imports Main
begin

section \<open>The store proxy of \<^verbatim>\<open>api/savedata.js\<close>\<close>

text \<open>
  The repository is one asynchronous request handler. It reads four values of the process
  environment, answers a GET by fetching a file of a remote repository, answers a POST by
  fetching the file's metadata and then writing the file with a PUT, and answers every
  other method with 405. The embedding below follows the handler line by line:
  \<^item> strings are byte strings (the UTF-8 bytes of the JavaScript string);
  \<^item> a JavaScript value that can be \<^verbatim>\<open>undefined\<close> is an \<open>option\<close>;
  \<^item> a \<^verbatim>\<open>throw\<close> is the left summand of a sum type;
  \<^item> the remote API is a parameter: a function from the calls made so far and the call
    being made to the outcome of \<^verbatim>\<open>fetch\<close>;
  \<^item> the calls a handler run makes and what it writes to the console are collected in a
    record that is passed along and returned.
\<close>

subsection \<open>JSON values\<close>

text \<open>
  A value as \<^verbatim>\<open>JSON.parse\<close> returns it. The handler never computes with a number, it only
  tests one for truthiness and prints it, so a number is held as the text that JavaScript's
  number-to-string conversion gives it (\<open>''3''\<close>, \<open>''0.5''\<close>, \<open>''1e+21''\<close>, and \<open>''Infinity''\<close>
  or \<open>''-Infinity''\<close> for a literal beyond the range of a double such as \<^verbatim>\<open>1e400\<close>). An object
  is the list of its properties in the object's own enumeration order.
\<close>

datatype json =
    JNull
  | JBool bool
  | JNum string
  | JStr string
  | JArr "json list"
  | JObj "(string \<times> json) list"

text \<open>JavaScript's truthiness, on a value that may be \<^verbatim>\<open>undefined\<close>.\<close>

fun truthy :: "json option \<Rightarrow> bool" where
  "truthy None = False"
| "truthy (Some JNull) = False"
| "truthy (Some (JBool b)) = b"
| "truthy (Some (JNum n)) = (n \<noteq> ''0'' \<and> n \<noteq> ''NaN'')"
| "truthy (Some (JStr s)) = (s \<noteq> [])"
| "truthy (Some (JArr xs)) = True"
| "truthy (Some (JObj kvs)) = True"

text \<open>Truthiness of an environment variable: a string or \<^verbatim>\<open>undefined\<close>.\<close>

fun truthy_str :: "string option \<Rightarrow> bool" where
  "truthy_str None = False"
| "truthy_str (Some s) = (s \<noteq> [])"

subsection \<open>\<^verbatim>\<open>JSON.stringify\<close>\<close>

definition dquote :: char where
  "dquote = CHR 0x22"

definition bslash :: char where
  "bslash = CHR 0x5C"

definition newline :: char where
  "newline = CHR 0x0A"

definition hex_lower :: "nat \<Rightarrow> char" where
  "hex_lower n = ''0123456789abcdef'' ! (n mod 16)"

definition hex_upper :: "nat \<Rightarrow> char" where
  "hex_upper n = ''0123456789ABCDEF'' ! (n mod 16)"

text \<open>
  QuoteJSONString, one character at a time: the quote and the backslash are escaped, the five
  control characters with a short form take it, every other character below 0x20 becomes
  \<^verbatim>\<open>\u00xx\<close>, and every other byte stands for itself.
\<close>

definition quote_char :: "char \<Rightarrow> string" where
  "quote_char c =
     (let n = (of_char c :: nat) in
      if c = dquote then [bslash, dquote]
      else if c = bslash then [bslash, bslash]
      else if n = 8 then [bslash, CHR ''b'']
      else if n = 9 then [bslash, CHR ''t'']
      else if n = 10 then [bslash, CHR ''n'']
      else if n = 12 then [bslash, CHR ''f'']
      else if n = 13 then [bslash, CHR ''r'']
      else if n < 32 then [bslash, CHR ''u'', CHR ''0'', CHR ''0'', hex_lower (n div 16), hex_lower n]
      else [c])"

definition quote :: "string \<Rightarrow> string" where
  "quote s = dquote # concat (map quote_char s) @ [dquote]"

fun join :: "string \<Rightarrow> string list \<Rightarrow> string" where
  "join sep [] = []"
| "join sep [x] = x"
| "join sep (x # y # ys) = x @ sep @ join sep (y # ys)"

text \<open>
  The wrapper of a non-empty array or object (\<open>l\<close> and \<open>r\<close> are the brackets): with an empty
  gap the parts are joined by commas, otherwise each part goes on a line of its own at the
  new indentation and the closing bracket at the old one.
\<close>

definition wrap :: "string \<Rightarrow> string \<Rightarrow> string \<Rightarrow> string \<Rightarrow> string list \<Rightarrow> string" where
  "wrap l r gap stepback partial =
     (if partial = [] then l @ r
      else if gap = [] then l @ join '','' partial @ r
      else l @ [newline] @ (stepback @ gap)
           @ join ('','' @ [newline] @ (stepback @ gap)) partial
           @ [newline] @ stepback @ r)"

text \<open>
  SerializeJSONProperty with its two helpers for the elements of an array and the properties
  of an object; \<open>gap\<close> is the indentation unit and \<open>ind\<close> the current indentation. A number
  that is not finite is written \<^verbatim>\<open>null\<close>.
\<close>

fun ser :: "string \<Rightarrow> string \<Rightarrow> json \<Rightarrow> string"
  and ser_elems :: "string \<Rightarrow> string \<Rightarrow> json list \<Rightarrow> string list"
  and ser_props :: "string \<Rightarrow> string \<Rightarrow> (string \<times> json) list \<Rightarrow> string list" where
  "ser gap ind JNull = ''null''"
| "ser gap ind (JBool b) = (if b then ''true'' else ''false'')"
| "ser gap ind (JNum n) =
     (if n = ''Infinity'' \<or> n = ''-Infinity'' \<or> n = ''NaN'' then ''null'' else n)"
| "ser gap ind (JStr s) = quote s"
| "ser gap ind (JArr xs) = wrap ''['' '']'' gap ind (ser_elems gap (ind @ gap) xs)"
| "ser gap ind (JObj kvs) = wrap ''{'' ''}'' gap ind (ser_props gap (ind @ gap) kvs)"
| "ser_elems gap ind [] = []"
| "ser_elems gap ind (x # xs) = ser gap ind x # ser_elems gap ind xs"
| "ser_props gap ind [] = []"
| "ser_props gap ind ((k, v) # kvs) =
     (quote k @ '':'' @ (if gap = [] then [] else '' '') @ ser gap ind v) # ser_props gap ind kvs"

text \<open>
  \<^verbatim>\<open>JSON.stringify(v, null, space)\<close> for \<open>space\<close> a number: the gap is that many blanks (at
  most ten), and \<^verbatim>\<open>undefined\<close> is serialised to \<^verbatim>\<open>undefined\<close>. \<^verbatim>\<open>JSON.stringify(v)\<close> is
  the case \<open>space = 0\<close>.
\<close>

definition JSON_stringify :: "json option \<Rightarrow> nat \<Rightarrow> string option" where
  "JSON_stringify v space = map_option (ser (replicate (min space 10) CHR '' '') []) v"

subsection \<open>\<^verbatim>\<open>Buffer.from(s).toString('base64')\<close> and \<^verbatim>\<open>encodeURIComponent\<close>\<close>

definition b64_alphabet :: string where
  "b64_alphabet = ''ABCDEFGHIJKLMNOPQRSTUVWXYZabcdefghijklmnopqrstuvwxyz0123456789+/''"

definition b64_digit :: "nat \<Rightarrow> char" where
  "b64_digit n = b64_alphabet ! (n mod 64)"

fun base64 :: "string \<Rightarrow> string" where
  "base64 [] = []"
| "base64 [a] =
     (let x = (of_char a :: nat) in
      [b64_digit (x div 4), b64_digit ((x mod 4) * 16), CHR ''='', CHR ''=''])"
| "base64 [a, b] =
     (let x = (of_char a :: nat); y = (of_char b :: nat) in
      [b64_digit (x div 4), b64_digit ((x mod 4) * 16 + y div 16),
       b64_digit ((y mod 16) * 4), CHR ''=''])"
| "base64 (a # b # c # rest) =
     (let x = (of_char a :: nat); y = (of_char b :: nat); z = (of_char c :: nat) in
      [b64_digit (x div 4), b64_digit ((x mod 4) * 16 + y div 16),
       b64_digit ((y mod 16) * 4 + z div 64), b64_digit (z mod 64)] @ base64 rest)"

text \<open>The standard decoder, the inverse the remote API applies to the content it is sent.\<close>

fun index_of :: "char \<Rightarrow> string \<Rightarrow> nat option" where
  "index_of c [] = None"
| "index_of c (x # xs) = (if c = x then Some 0 else map_option Suc (index_of c xs))"

definition b64_value :: "char \<Rightarrow> nat option" where
  "b64_value c = index_of c b64_alphabet"

fun base64_decode :: "string \<Rightarrow> string option" where
  "base64_decode [] = Some []"
| "base64_decode (a # b # c # d # rest) =
     (case (b64_value a, b64_value b) of
        (Some p, Some q) \<Rightarrow>
          (if c = CHR ''='' \<and> d = CHR ''='' \<and> rest = [] then
             Some [char_of (p * 4 + q div 16)]
           else case b64_value c of
             None \<Rightarrow> None
           | Some r \<Rightarrow>
               (if d = CHR ''='' \<and> rest = [] then
                  Some [char_of (p * 4 + q div 16), char_of ((q mod 16) * 16 + r div 4)]
                else case b64_value d of
                  None \<Rightarrow> None
                | Some s \<Rightarrow>
                    map_option
                      (\<lambda>tl. char_of (p * 4 + q div 16) # char_of ((q mod 16) * 16 + r div 4)
                              # char_of ((r mod 4) * 64 + s) # tl)
                      (base64_decode rest)))
      | _ \<Rightarrow> None)"
| "base64_decode _ = None"

text \<open>
  \<^verbatim>\<open>encodeURIComponent\<close>: letters, digits and the eleven marks stand for themselves, every
  other byte of the UTF-8 text becomes a percent sign and two upper-case hex digits.
\<close>

definition uri_unreserved :: "char \<Rightarrow> bool" where
  "uri_unreserved c \<longleftrightarrow>
     c \<in> set (''ABCDEFGHIJKLMNOPQRSTUVWXYZabcdefghijklmnopqrstuvwxyz0123456789''
              @ ''-_.!~*'' @ [CHR 0x27] @ ''()'')"

definition encodeURIComponent :: "string \<Rightarrow> string" where
  "encodeURIComponent s =
     concat (map (\<lambda>c. if uri_unreserved c then [c]
                      else [CHR ''%'', hex_upper ((of_char c :: nat) div 16),
                            hex_upper (of_char c :: nat)]) s)"

subsection \<open>The handler's data\<close>

text \<open>A thrown value, with its \<^verbatim>\<open>message\<close>.\<close>

datatype js_error = JsError (message: string)

text \<open>
  The process environment: each variable is a string or \<^verbatim>\<open>undefined\<close>.
\<close>

record env =
  GITHUB_TOKEN :: "string option"
  GITHUB_REPO :: "string option"
  GITHUB_FILE_PATH :: "string option"
  BRANCH :: "string option"

text \<open>
  The inbound request: its method, its body as the hosting platform parsed it (\<^verbatim>\<open>undefined\<close>
  when the request has none), and its query, whose values are strings or arrays of strings.
\<close>

record request =
  req_method :: string
  body :: "json option"
  query :: "(string \<times> json) list option"

text \<open>
  The response object the platform hands to the handler. The handler changes it in place:
  \<^verbatim>\<open>res.setHeader\<close> adds a header, \<^verbatim>\<open>res.status(n)\<close> sets the status and \<^verbatim>\<open>.json(v)\<close>
  sends \<open>v\<close>. Only what the handler itself sets is recorded.
\<close>

record http_response =
  res_status :: nat
  res_headers :: "(string \<times> string) list"
  res_body :: "json option"

text \<open>An outbound call: the arguments of one \<^verbatim>\<open>fetch\<close>.\<close>

record call =
  url :: string
  http_method :: string
  headers :: "(string \<times> string) list"
  payload :: "string option"

text \<open>
  What \<^verbatim>\<open>fetch\<close> resolves to: the status line and the outcome of reading the body to its
  end (\<^verbatim>\<open>r.text()\<close>), which can reject.
\<close>

record fetch_response =
  status :: nat
  statusText :: string
  body_text :: "js_error + string"

text \<open>\<^verbatim>\<open>Response.ok\<close>: the status is in the range 200 to 299.\<close>

definition ok :: "fetch_response \<Rightarrow> bool" where
  "ok r \<longleftrightarrow> 200 \<le> status r \<and> status r \<le> 299"

text \<open>
  The remote API: given the calls already made and the call being made, \<^verbatim>\<open>fetch\<close> rejects
  (a network failure) or resolves to a response.
\<close>

type_synonym remote = "call list \<Rightarrow> call \<Rightarrow> js_error + fetch_response"

text \<open>
  The parts of the JavaScript platform the handler relies on and the repository does not
  define: \<^verbatim>\<open>JSON.parse\<close>, which returns a value or throws, the error \<^verbatim>\<open>Buffer.from\<close> throws
  when it is given \<^verbatim>\<open>undefined\<close>, and the error a property read on \<^verbatim>\<open>null\<close> throws.
\<close>

record platform =
  JSON_parse :: "string \<Rightarrow> js_error + json"
  buffer_from_undefined :: js_error
  property_of_null :: js_error

text \<open>
  The state a run of the handler changes: the outbound calls in the order they were made, the
  errors written with \<^verbatim>\<open>console.error\<close>, and the response object.
\<close>

record world =
  calls :: "call list"
  console :: "js_error list"
  res :: http_response

definition world0 :: world where
  "world0 = \<lparr>calls = [], console = [], res = \<lparr>res_status = 200, res_headers = [], res_body = None\<rparr>\<rparr>"

subsection \<open>The handler's primitives\<close>

text \<open>\<^verbatim>\<open>res.status(n).json(v)\<close>\<close>

definition send :: "nat \<Rightarrow> json \<Rightarrow> world \<Rightarrow> world" where
  "send n v w = w\<lparr>res := (res w)\<lparr>res_status := n, res_body := Some v\<rparr>\<rparr>"

text \<open>\<^verbatim>\<open>res.setHeader(k, v)\<close>\<close>

definition setHeader :: "string \<Rightarrow> string \<Rightarrow> world \<Rightarrow> world" where
  "setHeader k v w =
     w\<lparr>res := (res w)\<lparr>res_headers := filter (\<lambda>h. fst h \<noteq> k) (res_headers (res w)) @ [(k, v)]\<rparr>\<rparr>"

text \<open>\<^verbatim>\<open>await fetch(...)\<close>: the call is recorded and the remote API decides its outcome.\<close>

definition fetch :: "remote \<Rightarrow> call \<Rightarrow> world \<Rightarrow> (js_error + fetch_response) \<times> world" where
  "fetch net c w = (net (calls w) c, w\<lparr>calls := calls w @ [c]\<rparr>)"

text \<open>\<^verbatim>\<open>await r.json()\<close>: read the body, then parse it; either step can throw.\<close>

definition response_json :: "platform \<Rightarrow> fetch_response \<Rightarrow> js_error + json" where
  "response_json P r = (case body_text r of Inl e \<Rightarrow> Inl e | Inr t \<Rightarrow> JSON_parse P t)"

text \<open>
  \<^verbatim>\<open>v.k\<close> on a parsed value: it throws on \<^verbatim>\<open>null\<close>, reads the property of an object, and is
  \<^verbatim>\<open>undefined\<close> on every other value for a key that is no built-in property.
\<close>

fun get_prop :: "platform \<Rightarrow> json \<Rightarrow> string \<Rightarrow> js_error + json option" where
  "get_prop P JNull k = Inl (property_of_null P)"
| "get_prop P (JObj kvs) k = Inr (map_of kvs k)"
| "get_prop P v k = Inr None"

text \<open>A template literal's \<^verbatim>\<open>${x}\<close> and \<^verbatim>\<open>x || d\<close> for a string that may be \<^verbatim>\<open>undefined\<close>.\<close>

fun interp :: "string option \<Rightarrow> string" where
  "interp None = ''undefined''"
| "interp (Some s) = s"

fun or_default :: "string option \<Rightarrow> string \<Rightarrow> string" where
  "or_default None d = d"
| "or_default (Some s) d = (if s = [] then d else s)"

text \<open>\<^verbatim>\<open>a || d\<close> on values.\<close>

fun or_else :: "json option \<Rightarrow> json \<Rightarrow> json" where
  "or_else None d = d"
| "or_else (Some v) d = (if truthy (Some v) then v else d)"

text \<open>\<^verbatim>\<open>req.query?.message\<close>\<close>

definition query_message :: "request \<Rightarrow> json option" where
  "query_message req = (case query req of None \<Rightarrow> None | Some q \<Rightarrow> map_of q ''message'')"

subsection \<open>The handler\<close>

text \<open>The values derived from the environment at the handler's start (lines 12 to 21, 52).\<close>

definition filePath :: "env \<Rightarrow> string" where
  "filePath env = or_default (GITHUB_FILE_PATH env) ''data.json''"

definition branch :: "env \<Rightarrow> string" where
  "branch env = or_default (BRANCH env) ''main''"

definition apiBase :: "env \<Rightarrow> string" where
  "apiBase env =
     ''https://api.github.com/repos/'' @ interp (GITHUB_REPO env) @ ''/contents/''
     @ encodeURIComponent (filePath env) @ ''?ref='' @ encodeURIComponent (branch env)"

definition putUrl :: "env \<Rightarrow> string" where
  "putUrl env =
     ''https://api.github.com/repos/'' @ interp (GITHUB_REPO env) @ ''/contents/''
     @ encodeURIComponent (filePath env)"

definition authorization :: "env \<Rightarrow> string \<times> string" where
  "authorization env = (''Authorization'', ''token '' @ interp (GITHUB_TOKEN env))"

text \<open>The three outbound calls: the read of line 26, the metadata fetch of line 42, the PUT of line 60.\<close>

definition get_call :: "env \<Rightarrow> call" where
  "get_call env =
     \<lparr>url = apiBase env, http_method = ''GET'',
      headers = [authorization env, (''Accept'', ''application/vnd.github.v3.raw'')],
      payload = None\<rparr>"

definition meta_call :: "env \<Rightarrow> call" where
  "meta_call env =
     \<lparr>url = apiBase env, http_method = ''GET'',
      headers = [authorization env, (''Accept'', ''application/vnd.github.v3+json'')],
      payload = None\<rparr>"

definition default_message :: string where
  "default_message = ''Update data.json via app''"

text \<open>
  The object \<^verbatim>\<open>putBody\<close> of lines 53 to 58, as its list of properties: \<open>b64\<close> is the encoded
  content and \<open>sha\<close> the value read from the metadata.
\<close>

definition putBody :: "env \<Rightarrow> request \<Rightarrow> string \<Rightarrow> json option \<Rightarrow> (string \<times> json) list" where
  "putBody env req b64 sha =
     [(''message'', or_else (query_message req) (JStr default_message)),
      (''content'', JStr b64),
      (''branch'', JStr (branch env))]
     @ (case sha of None \<Rightarrow> [] | Some s \<Rightarrow> if truthy (Some s) then [(''sha'', s)] else [])"

definition put_call :: "env \<Rightarrow> (string \<times> json) list \<Rightarrow> call" where
  "put_call env pb =
     \<lparr>url = putUrl env, http_method = ''PUT'',
      headers = [authorization env, (''Accept'', ''application/vnd.github.v3+json''),
                 (''Content-Type'', ''application/json'')],
      payload = JSON_stringify (Some (JObj pb)) 0\<rparr>"

text \<open>
  The message of line 68. In the source file the literal is the seven bytes below followed by
  the English text.
\<close>

definition saved_message :: string where
  "saved_message =
     [CHR 0xC3, CHR 0xA2, CHR 0xC5, CHR 0x93, CHR 0xE2, CHR 0x80, CHR 0xA6] @ '' Data saved to GitHub''"

text \<open>
  The branches of the \<^verbatim>\<open>try\<close> block return the error they throw (\<open>Some\<close>) or \<open>None\<close> when
  they return normally, together with the state they leave.
\<close>

definition handle_GET :: "platform \<Rightarrow> env \<Rightarrow> remote \<Rightarrow> world \<Rightarrow> js_error option \<times> world" where
  "handle_GET P env net w =
     (case fetch net (get_call env) w of
        (Inl e, w1) \<Rightarrow> (Some e, w1)
      | (Inr r, w1) \<Rightarrow>
          if \<not> ok r then
            (None, send (status r)
                     (JObj [(''error'', JStr ''GitHub GET failed''), (''status'', JStr (statusText r))]) w1)
          else
            (case body_text r of
               Inl e \<Rightarrow> (Some e, w1)
             | Inr t \<Rightarrow>
                 (case JSON_parse P t of
                    Inr obj \<Rightarrow> (None, send 200 obj w1)
                  | Inl e \<Rightarrow> (None, send 200 (JObj [(''raw'', JStr t)]) w1))))"

definition handle_POST ::
  "platform \<Rightarrow> env \<Rightarrow> remote \<Rightarrow> request \<Rightarrow> world \<Rightarrow> js_error option \<times> world" where
  "handle_POST P env net req w =
     (case fetch net (meta_call env) w of
        (Inl e, w1) \<Rightarrow> (Some e, w1)
      | (Inr metaR, w1) \<Rightarrow>
          if \<not> ok metaR then
            (None, send (status metaR)
                     (JObj [(''error'', JStr ''Could not fetch file metadata''),
                            (''status'', JStr (statusText metaR))]) w1)
          else
            (case response_json P metaR of
               Inl e \<Rightarrow> (Some e, w1)
             | Inr meta \<Rightarrow>
                 (case get_prop P meta ''sha'' of
                    Inl e \<Rightarrow> (Some e, w1)
                  | Inr sha \<Rightarrow>
                      (case JSON_stringify (body req) 2 of
                         None \<Rightarrow> (Some (buffer_from_undefined P), w1)
                       | Some contentStr \<Rightarrow>
                           (case fetch net (put_call env (putBody env req (base64 contentStr) sha)) w1 of
                              (Inl e, w2) \<Rightarrow> (Some e, w2)
                            | (Inr putR, w2) \<Rightarrow>
                                (case response_json P putR of
                                   Inl e \<Rightarrow> (Some e, w2)
                                 | Inr j \<Rightarrow>
                                     if \<not> ok putR then
                                       (None, send (status putR)
                                                (JObj [(''error'', JStr ''GitHub PUT failed''),
                                                       (''detail'', j)]) w2)
                                     else
                                       (None, send 200
                                                (JObj [(''message'', JStr saved_message),
                                                       (''result'', j)]) w2)))))))"

definition handle_other :: "world \<Rightarrow> js_error option \<times> world" where
  "handle_other w =
     (None, send 405 (JObj [(''error'', JStr ''Method not allowed'')])
              (setHeader ''Allow'' ''GET,POST'' w))"

definition try_block ::
  "platform \<Rightarrow> env \<Rightarrow> remote \<Rightarrow> request \<Rightarrow> world \<Rightarrow> js_error option \<times> world" where
  "try_block P env net req w =
     (if req_method req = ''GET'' then handle_GET P env net w
      else if req_method req = ''POST'' then handle_POST P env net req w
      else handle_other w)"

text \<open>
  The handler: the configuration check, the \<^verbatim>\<open>try\<close> block, and the \<^verbatim>\<open>catch\<close> that logs the
  error and answers 500. Its result is the state it leaves: the calls made, the console and
  the response.
\<close>

definition handler :: "platform \<Rightarrow> env \<Rightarrow> remote \<Rightarrow> request \<Rightarrow> world" where
  "handler P env net req =
     (if \<not> truthy_str (GITHUB_TOKEN env) \<or> \<not> truthy_str (GITHUB_REPO env) then
        send 500
          (JObj [(''error'', JStr ''Missing GITHUB_TOKEN or GITHUB_REPO environment variables'')])
          world0
      else
        (case try_block P env net req world0 of
           (None, w) \<Rightarrow> w
         | (Some err, w) \<Rightarrow>
             send 500 (JObj [(''error'', JStr ''Server error''), (''detail'', JStr (message err))])
               (w\<lparr>console := console w @ [err]\<rparr>)))"

subsection \<open>Notions the properties are stated with\<close>

text \<open>A configuration is valid when the access token and the repository are both set.\<close>

definition valid_config :: "env \<Rightarrow> bool" where
  "valid_config env \<longleftrightarrow> truthy_str (GITHUB_TOKEN env) \<and> truthy_str (GITHUB_REPO env)"

text \<open>The PUT calls among the calls of a run.\<close>

fun puts :: "call list \<Rightarrow> call list" where
  "puts [] = []"
| "puts (c # cs) = (if http_method c = ''PUT'' then c # puts cs else puts cs)"

text \<open>The text \<^verbatim>\<open>JSON.stringify(v, null, 2)\<close> gives for a value.\<close>

definition pretty :: "json \<Rightarrow> string" where
  "pretty v = ser ''  '' [] v"

subsection \<open>Concrete runs\<close>

text \<open>
  A configuration, a parser that knows four texts, and remote APIs that answer the first call
  and the PUT with fixed responses.
\<close>

definition env0 :: env where
  "env0 = \<lparr>GITHUB_TOKEN = Some ''t0k'', GITHUB_REPO = Some ''faizan/carepro-accommodation'',
           GITHUB_FILE_PATH = None, BRANCH = None\<rparr>"

definition env_no_token :: env where
  "env_no_token = \<lparr>GITHUB_TOKEN = None, GITHUB_REPO = Some ''faizan/carepro-accommodation'',
           GITHUB_FILE_PATH = None, BRANCH = None\<rparr>"

definition meta_abc :: json where
  "meta_abc = JObj [(''name'', JStr ''data.json''), (''sha'', JStr ''abc123'')]"

definition meta_no_sha :: json where
  "meta_no_sha = JObj [(''name'', JStr ''data.json'')]"

definition not_found :: json where
  "not_found = JObj [(''message'', JStr ''Not Found'')]"

definition commit_info :: json where
  "commit_info = JObj [(''commit'', JObj [(''sha'', JStr ''def456'')])]"

definition rooms3 :: json where
  "rooms3 = JObj [(''rooms'', JNum ''3'')]"

definition parse0 :: "string \<Rightarrow> js_error + json" where
  "parse0 s =
     (if s = ser [] [] meta_abc then Inr meta_abc
      else if s = ser [] [] meta_no_sha then Inr meta_no_sha
      else if s = ser [] [] not_found then Inr not_found
      else if s = ser [] [] commit_info then Inr commit_info
      else if s = ser [] [] rooms3 then Inr rooms3
      else Inl (JsError ''Unexpected token''))"

definition P0 :: platform where
  "P0 = \<lparr>JSON_parse = parse0,
         buffer_from_undefined = JsError ''The first argument must be of type string'',
         property_of_null = JsError ''Cannot read properties of null''\<rparr>"

definition resp :: "nat \<Rightarrow> string \<Rightarrow> string \<Rightarrow> fetch_response" where
  "resp n st t = \<lparr>status = n, statusText = st, body_text = Inr t\<rparr>"

definition remote_of :: "fetch_response \<Rightarrow> fetch_response \<Rightarrow> remote" where
  "remote_of first put = (\<lambda>h c. if http_method c = ''PUT'' then Inr put else Inr first)"

definition resp_created :: fetch_response where
  "resp_created = resp 200 ''OK'' (ser [] [] commit_info)"

definition resp_meta_abc :: fetch_response where
  "resp_meta_abc = resp 200 ''OK'' (ser [] [] meta_abc)"

definition resp_meta_no_sha :: fetch_response where
  "resp_meta_no_sha = resp 200 ''OK'' (ser [] [] meta_no_sha)"

definition resp_not_found :: fetch_response where
  "resp_not_found = resp 404 ''Not Found'' (ser [] [] not_found)"

definition resp_bad_gateway :: fetch_response where
  "resp_bad_gateway = resp 502 ''Bad Gateway'' ''<html>502 Bad Gateway</html>''"

definition resp_conflict :: fetch_response where
  "resp_conflict = resp 409 ''Conflict'' (ser [] [] not_found)"

definition resp_rooms :: fetch_response where
  "resp_rooms = resp 200 ''OK'' (ser [] [] rooms3)"

definition resp_plain :: fetch_response where
  "resp_plain = resp 200 ''OK'' ''hello, world''"

definition req_get :: request where
  "req_get = \<lparr>req_method = ''GET'', body = None, query = Some []\<rparr>"

definition req_post :: request where
  "req_post = \<lparr>req_method = ''POST'', body = Some rooms3, query = Some []\<rparr>"

definition req_post_msg :: request where
  "req_post_msg = \<lparr>req_method = ''POST'', body = Some rooms3, query = Some [(''message'', JStr ''nightly sync'')]\<rparr>"

definition req_post_empty_msg :: request where
  "req_post_empty_msg = \<lparr>req_method = ''POST'', body = Some rooms3, query = Some [(''message'', JStr [])]\<rparr>"

definition req_post_nobody :: request where
  "req_post_nobody = \<lparr>req_method = ''POST'', body = None, query = Some []\<rparr>"

definition req_post_nobody_msg :: request where
  "req_post_nobody_msg =
     \<lparr>req_method = ''POST'', body = None, query = Some [(''message'', JStr ''nightly sync'')]\<rparr>"

definition req_delete :: request where
  "req_delete = \<lparr>req_method = ''DELETE'', body = None, query = Some []\<rparr>"

section \<open>Facts about the platform functions\<close>

subsection \<open>Base64 decoding inverts the encoding\<close>

lemma index_of_nth: "distinct xs \<Longrightarrow> n < length xs \<Longrightarrow> index_of (xs ! n) xs = Some n"
proof (induction xs arbitrary: n)
  case Nil
  then show ?case by simp
next
  case (Cons x xs)
  show ?case
  proof (cases n)
    case 0
    then show ?thesis by simp
  next
    case (Suc m)
    with Cons.prems have "xs ! m \<in> set xs" "x \<notin> set xs" by auto
    then have "xs ! m \<noteq> x" by auto
    with Suc Cons show ?thesis by simp
  qed
qed

lemma distinct_b64_alphabet: "distinct b64_alphabet"
  by (simp add: b64_alphabet_def)

lemma length_b64_alphabet: "length b64_alphabet = 64"
  by (simp add: b64_alphabet_def)

lemma b64_value_digit: "b64_value (b64_digit n) = Some (n mod 64)"
  unfolding b64_value_def b64_digit_def
  by (rule index_of_nth) (simp_all add: distinct_b64_alphabet length_b64_alphabet)

lemma b64_digit_not_pad: "b64_digit n \<noteq> CHR ''=''"
proof -
  have "b64_digit n \<in> set b64_alphabet"
    unfolding b64_digit_def by (rule nth_mem) (simp add: length_b64_alphabet)
  moreover have "CHR ''='' \<notin> set b64_alphabet"
    by (simp add: b64_alphabet_def)
  ultimately show ?thesis by metis
qed

lemma of_char_lt_256: "(of_char c :: nat) < 256"
  by (metis of_char_mod_256 mod_less_divisor zero_less_numeral)

lemma sextet_split:
  fixes k a n :: nat
  assumes "a < n"
  shows "(k * n + a) div n = k" and "(k * n + a) mod n = a"
  using assms by simp_all

text \<open>Three bytes are cut into four sextets; the next three lemmas put them together again.\<close>

lemma sextets_first:
  fixes x y :: nat
  assumes "x < 256" "y < 256"
  shows "(x div 4) mod 64 * 4 + ((x mod 4) * 16 + y div 16) mod 64 div 16 = x"
proof -
  have a: "x div 4 < 64" using assms by simp
  have b: "y div 16 < 16" using assms by simp
  have c: "(x mod 4) * 16 + y div 16 < 64"
  proof -
    have "x mod 4 \<le> 3" by simp
    then have "(x mod 4) * 16 \<le> 48" by simp
    with b show ?thesis by linarith
  qed
  have "((x mod 4) * 16 + y div 16) div 16 = x mod 4"
    using b by (rule sextet_split)
  with a c show ?thesis by simp
qed

lemma sextets_second:
  fixes x y z :: nat
  assumes "y < 256" "z < 256"
  shows "(((x mod 4) * 16 + y div 16) mod 64 mod 16) * 16
         + ((y mod 16) * 4 + z div 64) mod 64 div 4 = y"
proof -
  have b: "y div 16 < 16" using assms by simp
  have d: "z div 64 < 4" using assms by simp
  have c: "(x mod 4) * 16 + y div 16 < 64"
  proof -
    have "x mod 4 \<le> 3" by simp
    then have "(x mod 4) * 16 \<le> 48" by simp
    with b show ?thesis by linarith
  qed
  have e: "(y mod 16) * 4 + z div 64 < 64"
  proof -
    have "y mod 16 \<le> 15" by simp
    then have "(y mod 16) * 4 \<le> 60" by simp
    with d show ?thesis by linarith
  qed
  have "((x mod 4) * 16 + y div 16) mod 16 = y div 16"
    using b by (rule sextet_split)
  moreover have "((y mod 16) * 4 + z div 64) div 4 = y mod 16"
    using d by (rule sextet_split)
  ultimately show ?thesis using c e by simp
qed

lemma sextets_third:
  fixes y z :: nat
  assumes "z < 256"
  shows "(((y mod 16) * 4 + z div 64) mod 64 mod 4) * 64 + (z mod 64) mod 64 = z"
proof -
  have d: "z div 64 < 4" using assms by simp
  have e: "(y mod 16) * 4 + z div 64 < 64"
  proof -
    have "y mod 16 \<le> 15" by simp
    then have "(y mod 16) * 4 \<le> 60" by simp
    with d show ?thesis by linarith
  qed
  have "((y mod 16) * 4 + z div 64) mod 4 = z div 64"
    using d by (rule sextet_split)
  with e show ?thesis by simp
qed

lemma sextets_first_pad:
  fixes x :: nat
  assumes "x < 256"
  shows "(x div 4) mod 64 * 4 + ((x mod 4) * 16) mod 64 div 16 = x"
  using sextets_first [OF assms, of 0] by simp

lemma sextets_second_pad:
  fixes x y :: nat
  assumes "y < 256"
  shows "(((x mod 4) * 16 + y div 16) mod 64 mod 16) * 16 + ((y mod 16) * 4) mod 64 div 4 = y"
  using sextets_second [OF assms, of 0 x] by simp

lemma decode_pad2:
  "base64_decode [b64_digit p, b64_digit q, CHR ''='', CHR ''='']
     = Some [char_of (p mod 64 * 4 + q mod 64 div 16)]"
  by (simp add: b64_value_digit)

lemma decode_pad1:
  "base64_decode [b64_digit p, b64_digit q, b64_digit r, CHR ''='']
     = Some [char_of (p mod 64 * 4 + q mod 64 div 16),
             char_of ((q mod 64 mod 16) * 16 + r mod 64 div 4)]"
  by (simp add: b64_value_digit b64_digit_not_pad)

lemma decode_quad:
  "base64_decode (b64_digit p # b64_digit q # b64_digit r # b64_digit s # rest)
     = map_option (\<lambda>tl. char_of (p mod 64 * 4 + q mod 64 div 16)
                          # char_of ((q mod 64 mod 16) * 16 + r mod 64 div 4)
                          # char_of ((r mod 64 mod 4) * 64 + s mod 64) # tl)
         (base64_decode rest)"
  by (simp add: b64_value_digit b64_digit_not_pad)

lemma base64_decode_base64: "base64_decode (base64 s) = Some s"
proof (induction s rule: base64.induct)
  case 1
  show ?case by simp
next
  case (2 a)
  have "char_of ((of_char a div 4) mod 64 * 4 + ((of_char a mod 4) * 16) mod 64 div 16 :: nat) = a"
    by (simp only: sextets_first_pad [OF of_char_lt_256] char_of_char)
  then show ?case
    by (simp only: base64.simps Let_def decode_pad2)
next
  case (3 a b)
  have x: "char_of ((of_char a div 4) mod 64 * 4
                    + ((of_char a mod 4) * 16 + of_char b div 16) mod 64 div 16 :: nat) = a"
    by (simp only: sextets_first [OF of_char_lt_256 of_char_lt_256] char_of_char)
  have y: "char_of ((((of_char a mod 4) * 16 + of_char b div 16) mod 64 mod 16) * 16
                    + ((of_char b mod 16) * 4) mod 64 div 4 :: nat) = b"
    by (simp only: sextets_second_pad [OF of_char_lt_256] char_of_char)
  show ?case
    by (simp only: base64.simps Let_def decode_pad1 x y)
next
  case (4 a b c rest)
  have x: "char_of ((of_char a div 4) mod 64 * 4
                    + ((of_char a mod 4) * 16 + of_char b div 16) mod 64 div 16 :: nat) = a"
    by (simp only: sextets_first [OF of_char_lt_256 of_char_lt_256] char_of_char)
  have y: "char_of ((((of_char a mod 4) * 16 + of_char b div 16) mod 64 mod 16) * 16
                    + ((of_char b mod 16) * 4 + of_char c div 64) mod 64 div 4 :: nat) = b"
    by (simp only: sextets_second [OF of_char_lt_256 of_char_lt_256] char_of_char)
  have z: "char_of ((((of_char b mod 16) * 4 + of_char c div 64) mod 64 mod 4) * 64
                    + (of_char c mod 64) mod 64 :: nat) = c"
    by (simp only: sextets_third [OF of_char_lt_256] char_of_char)
  show ?case
    by (simp only: base64.simps Let_def append_Cons append_Nil decode_quad x y z "4.IH" option.map)
qed

subsection \<open>Pretty printing\<close>

lemma JSON_stringify_pretty: "JSON_stringify v 2 = map_option pretty v"
  by (cases v) (simp_all add: JSON_stringify_def pretty_def numeral_2_eq_2)

lemma pretty_rooms3:
  "pretty rooms3 = ''{'' @ [newline] @ ''  '' @ [dquote] @ ''rooms'' @ [dquote] @ '': 3'' @ [newline] @ ''}''"
  by code_simp

lemma base64_rooms3: "base64 (pretty rooms3) = ''ewogICJyb29tcyI6IDMKfQ==''"
  by code_simp

section \<open>Facts about the handler\<close>

lemmas handler_defs = handler_def try_block_def handle_GET_def handle_POST_def handle_other_def
  fetch_def send_def setHeader_def world0_def valid_config_def

text \<open>
  A POST that gets its metadata, finds a value (possibly \<^verbatim>\<open>undefined\<close>) for \<^verbatim>\<open>meta.sha\<close> and
  has a body makes exactly two calls: the metadata fetch and the PUT.
\<close>

lemma post_issues_put:
  assumes "valid_config env" "req_method req = ''POST''"
    and "net [] (meta_call env) = Inr r" "ok r" "response_json P r = Inr meta"
    and "get_prop P meta ''sha'' = Inr sha" "body req = Some b"
  shows "calls (handler P env net req) =
           [meta_call env, put_call env (putBody env req (base64 (pretty b)) sha)]"
  using assms by (simp add: handler_defs JSON_stringify_pretty split: sum.splits)

text \<open>Conversely, a run that makes two calls is such a POST.\<close>

lemma two_calls:
  assumes "calls (handler P env net req) = [c1, c2]"
  shows "valid_config env \<and> req_method req = ''POST'' \<and> c1 = meta_call env
       \<and> (\<exists>r meta sha b. net [] (meta_call env) = Inr r \<and> ok r \<and> response_json P r = Inr meta
             \<and> get_prop P meta ''sha'' = Inr sha \<and> body req = Some b
             \<and> c2 = put_call env (putBody env req (base64 (pretty b)) sha))"
  using assms
  by (auto simp: handler_defs JSON_stringify_pretty split: if_splits sum.splits option.splits)

text \<open>A run issues a PUT exactly when it makes two calls.\<close>

lemma put_issued_two_calls:
  "puts (calls (handler P env net req)) \<noteq> [] \<longleftrightarrow> (\<exists>c1 c2. calls (handler P env net req) = [c1, c2])"
  by (auto simp: handler_defs get_call_def meta_call_def put_call_def
      split: if_splits sum.splits option.splits)

text \<open>
  A POST without a body fetches the metadata and then fails in \<^verbatim>\<open>Buffer.from\<close>: the PUT is
  not issued and the answer is 500.
\<close>

lemma post_without_body:
  assumes "valid_config env" "req_method req = ''POST''"
    and "net [] (meta_call env) = Inr r" "ok r" "response_json P r = Inr meta"
    and "get_prop P meta ''sha'' = Inr sha" "body req = None"
  shows "calls (handler P env net req) = [meta_call env]
       \<and> res_status (res (handler P env net req)) = 500
       \<and> console (handler P env net req) = [buffer_from_undefined P]"
  using assms by (simp add: handler_defs JSON_stringify_def)

subsection \<open>The concrete runs\<close>

lemma env0_valid: "valid_config env0"
  by (simp add: valid_config_def env0_def)

lemma remote_of_get: "remote_of a b h (get_call env) = Inr a"
  by (simp add: remote_of_def get_call_def)

lemma remote_of_meta: "remote_of a b h (meta_call env) = Inr a"
  by (simp add: remote_of_def meta_call_def)

lemma remote_of_put: "remote_of a b h (put_call env pb) = Inr b"
  by (simp add: remote_of_def put_call_def)

lemma json_meta_abc: "response_json P0 resp_meta_abc = Inr meta_abc"
  by (simp add: response_json_def P0_def resp_meta_abc_def resp_def parse0_def)

lemma json_meta_no_sha: "response_json P0 resp_meta_no_sha = Inr meta_no_sha"
  by code_simp

lemma json_not_found: "response_json P0 resp_not_found = Inr not_found"
  by code_simp

lemma json_conflict: "response_json P0 resp_conflict = Inr not_found"
  by code_simp

lemma json_created: "response_json P0 resp_created = Inr commit_info"
  by code_simp

lemma json_bad_gateway: "response_json P0 resp_bad_gateway = Inl (JsError ''Unexpected token'')"
  by code_simp

lemma parse_rooms: "JSON_parse P0 (ser [] [] rooms3) = Inr rooms3"
  by code_simp

lemma parse_plain: "JSON_parse P0 ''hello, world'' = Inl (JsError ''Unexpected token'')"
  by code_simp

lemma ok_meta_abc: "ok resp_meta_abc" and ok_meta_no_sha: "ok resp_meta_no_sha"
  and ok_created: "ok resp_created" and ok_rooms: "ok resp_rooms" and ok_plain: "ok resp_plain"
  and not_ok_not_found: "\<not> ok resp_not_found" and not_ok_conflict: "\<not> ok resp_conflict"
  and not_ok_bad_gateway: "\<not> ok resp_bad_gateway"
  by (simp_all add: ok_def resp_def resp_meta_abc_def resp_meta_no_sha_def resp_created_def
      resp_rooms_def resp_plain_def resp_not_found_def resp_conflict_def resp_bad_gateway_def)

lemma status_not_found: "status resp_not_found = 404" "statusText resp_not_found = ''Not Found''"
  and status_conflict: "status resp_conflict = 409"
  and status_bad_gateway: "status resp_bad_gateway = 502"
  by (simp_all add: resp_not_found_def resp_conflict_def resp_bad_gateway_def resp_def)

lemma post_req: "req_method req_post = ''POST''" "body req_post = Some rooms3"
  "req_method req_post_msg = ''POST''" "body req_post_msg = Some rooms3"
  "req_method req_post_empty_msg = ''POST''" "body req_post_empty_msg = Some rooms3"
  by (simp_all add: req_post_def req_post_msg_def req_post_empty_msg_def)

lemma sha_meta_abc: "get_prop P0 meta_abc ''sha'' = Inr (Some (JStr ''abc123''))"
  and sha_meta_no_sha: "get_prop P0 meta_no_sha ''sha'' = Inr None"
  by (simp_all add: meta_abc_def meta_no_sha_def)

lemma run_abc:
  "body req = Some b \<Longrightarrow> req_method req = ''POST'' \<Longrightarrow>
   calls (handler P0 env0 (remote_of resp_meta_abc p) req) =
     [meta_call env0, put_call env0 (putBody env0 req (base64 (pretty b)) (Some (JStr ''abc123'')))]"
  by (rule post_issues_put [where r = resp_meta_abc and meta = meta_abc])
     (simp_all add: env0_valid remote_of_meta json_meta_abc ok_meta_abc meta_abc_def)

subsection \<open>What the calls carry\<close>

text \<open>The text a PUT sends: the compact JSON of the object of lines 53 to 58.\<close>

lemma put_payload:
  "payload (put_call env (putBody env req b64 sha)) =
     Some (''{'' @ quote ''message'' @ '':'' @ ser [] [] (or_else (query_message req) (JStr default_message))
           @ '','' @ quote ''content'' @ '':'' @ quote b64
           @ '','' @ quote ''branch'' @ '':'' @ quote (branch env)
           @ (case sha of None \<Rightarrow> []
              | Some s \<Rightarrow> if truthy (Some s) then '','' @ quote ''sha'' @ '':'' @ ser [] [] s else [])
           @ ''}'')"
  by (cases sha) (simp_all add: put_call_def putBody_def JSON_stringify_def wrap_def)

lemma put_call_fields:
  "http_method (put_call env pb) = ''PUT''" "url (put_call env pb) = putUrl env"
  "payload (put_call env pb) = JSON_stringify (Some (JObj pb)) 0"
  "headers (put_call env pb) =
     [(''Authorization'', ''token '' @ interp (GITHUB_TOKEN env)),
      (''Accept'', ''application/vnd.github.v3+json''), (''Content-Type'', ''application/json'')]"
  by (simp_all add: put_call_def authorization_def)

lemma meta_call_fields:
  "http_method (meta_call env) = ''GET''" "url (meta_call env) = apiBase env"
  "payload (meta_call env) = None"
  "headers (meta_call env) =
     [(''Authorization'', ''token '' @ interp (GITHUB_TOKEN env)),
      (''Accept'', ''application/vnd.github.v3+json'')]"
  by (simp_all add: meta_call_def authorization_def)

lemma branch_cases:
  "branch env = (case BRANCH env of None \<Rightarrow> ''main'' | Some s \<Rightarrow> if s = [] then ''main'' else s)"
  by (cases "BRANCH env") (simp_all add: branch_def)

text \<open>A POST whose metadata fetch succeeds but that cannot build its PUT answers 500.\<close>

lemma post_no_put:
  assumes "valid_config env" "req_method req = ''POST''"
    and "net [] (meta_call env) = Inr r" "ok r"
    and "body req = None \<or> (\<exists>e. response_json P r = Inl e)
         \<or> (\<exists>meta e. response_json P r = Inr meta \<and> get_prop P meta ''sha'' = Inl e)"
  shows "calls (handler P env net req) = [meta_call env]
       \<and> res_status (res (handler P env net req)) = 500"
  using assms
  by (auto simp: handler_defs JSON_stringify_def split: sum.splits option.splits)

text \<open>The calls of three concrete runs, as they go out.\<close>

lemma run_abc_wire:
  "calls (handler P0 env0 (remote_of resp_meta_abc resp_created) req_post) =
     [\<lparr>url = ''https://api.github.com/repos/faizan/carepro-accommodation/contents/data.json?ref=main'',
       http_method = ''GET'',
       headers = [(''Authorization'', ''token t0k''), (''Accept'', ''application/vnd.github.v3+json'')],
       payload = None\<rparr>,
      \<lparr>url = ''https://api.github.com/repos/faizan/carepro-accommodation/contents/data.json'',
       http_method = ''PUT'',
       headers = [(''Authorization'', ''token t0k''), (''Accept'', ''application/vnd.github.v3+json''),
                  (''Content-Type'', ''application/json'')],
       payload = Some (''{'' @ [CHR 0x22] @ ''message'' @ [CHR 0x22] @ '':''
                       @ [CHR 0x22] @ ''Update data.json via app'' @ [CHR 0x22]
                       @ '','' @ [CHR 0x22] @ ''content'' @ [CHR 0x22] @ '':''
                       @ [CHR 0x22] @ ''ewogICJyb29tcyI6IDMKfQ=='' @ [CHR 0x22]
                       @ '','' @ [CHR 0x22] @ ''branch'' @ [CHR 0x22] @ '':''
                       @ [CHR 0x22] @ ''main'' @ [CHR 0x22]
                       @ '','' @ [CHR 0x22] @ ''sha'' @ [CHR 0x22] @ '':''
                       @ [CHR 0x22] @ ''abc123'' @ [CHR 0x22] @ ''}'')\<rparr>]"
  by code_simp

lemma run_no_sha_wire:
  "calls (handler P0 env0 (remote_of resp_meta_no_sha resp_created) req_post) =
     [\<lparr>url = ''https://api.github.com/repos/faizan/carepro-accommodation/contents/data.json?ref=main'',
       http_method = ''GET'',
       headers = [(''Authorization'', ''token t0k''), (''Accept'', ''application/vnd.github.v3+json'')],
       payload = None\<rparr>,
      \<lparr>url = ''https://api.github.com/repos/faizan/carepro-accommodation/contents/data.json'',
       http_method = ''PUT'',
       headers = [(''Authorization'', ''token t0k''), (''Accept'', ''application/vnd.github.v3+json''),
                  (''Content-Type'', ''application/json'')],
       payload = Some (''{'' @ [CHR 0x22] @ ''message'' @ [CHR 0x22] @ '':''
                       @ [CHR 0x22] @ ''Update data.json via app'' @ [CHR 0x22]
                       @ '','' @ [CHR 0x22] @ ''content'' @ [CHR 0x22] @ '':''
                       @ [CHR 0x22] @ ''ewogICJyb29tcyI6IDMKfQ=='' @ [CHR 0x22]
                       @ '','' @ [CHR 0x22] @ ''branch'' @ [CHR 0x22] @ '':''
                       @ [CHR 0x22] @ ''main'' @ [CHR 0x22] @ ''}'')\<rparr>]"
  by code_simp

lemma run_msg_wire:
  "calls (handler P0 env0 (remote_of resp_meta_abc resp_created) req_post_msg) =
     [\<lparr>url = ''https://api.github.com/repos/faizan/carepro-accommodation/contents/data.json?ref=main'',
       http_method = ''GET'',
       headers = [(''Authorization'', ''token t0k''), (''Accept'', ''application/vnd.github.v3+json'')],
       payload = None\<rparr>,
      \<lparr>url = ''https://api.github.com/repos/faizan/carepro-accommodation/contents/data.json'',
       http_method = ''PUT'',
       headers = [(''Authorization'', ''token t0k''), (''Accept'', ''application/vnd.github.v3+json''),
                  (''Content-Type'', ''application/json'')],
       payload = Some (''{'' @ [CHR 0x22] @ ''message'' @ [CHR 0x22] @ '':''
                       @ [CHR 0x22] @ ''nightly sync'' @ [CHR 0x22]
                       @ '','' @ [CHR 0x22] @ ''content'' @ [CHR 0x22] @ '':''
                       @ [CHR 0x22] @ ''ewogICJyb29tcyI6IDMKfQ=='' @ [CHR 0x22]
                       @ '','' @ [CHR 0x22] @ ''branch'' @ [CHR 0x22] @ '':''
                       @ [CHR 0x22] @ ''main'' @ [CHR 0x22]
                       @ '','' @ [CHR 0x22] @ ''sha'' @ [CHR 0x22] @ '':''
                       @ [CHR 0x22] @ ''abc123'' @ [CHR 0x22] @ ''}'')\<rparr>]"
  by code_simp

lemma nobody_req: "req_method req_post_nobody = ''POST''" "body req_post_nobody = None"
  "req_method req_post_nobody_msg = ''POST''" "body req_post_nobody_msg = None"
  by (simp_all add: req_post_nobody_def req_post_nobody_msg_def)

section \<open>The claims\<close>

subsection \<open>C1: a POST whose metadata fetch finds no file\<close>

text \<open>
  Claim C1 says that such a POST goes on to issue the PUT, without a revision token. The
  handler does not: ``not found'' is a non-success status, and line 43 answers every
  non-success status of the metadata fetch at once. The run below, where the remote API answers
  the metadata fetch with 404, issues no PUT and answers 404.
\<close>

theorem post_not_found_no_put:
  "valid_config env0 \<and> req_method req_post = ''POST''
   \<and> remote_of resp_not_found resp_created [] (meta_call env0) = Inr resp_not_found
   \<and> status resp_not_found = 404
   \<and> puts (calls (handler P0 env0 (remote_of resp_not_found resp_created) req_post)) = []
   \<and> res_status (res (handler P0 env0 (remote_of resp_not_found resp_created) req_post)) = 404"
  by (simp add: handler_defs ok_def meta_call_def env0_def req_post_def remote_of_def
      resp_not_found_def resp_def)

text \<open>
  Claim C1 as amended: for every POST under a valid configuration whose metadata fetch returns
  status 404, the handler answers 404 with the payload
  \<^verbatim>\<open>{error: 'Could not fetch file metadata', status: <status text>}\<close>; the metadata fetch is
  the only outbound call and no PUT is issued.
\<close>

theorem post_not_found_aborts:
  assumes "valid_config env" "req_method req = ''POST''"
    and "net [] (meta_call env) = Inr r" "status r = 404"
  shows "res_status (res (handler P env net req)) = 404
       \<and> res_body (res (handler P env net req)) =
           Some (JObj [(''error'', JStr ''Could not fetch file metadata''),
                       (''status'', JStr (statusText r))])
       \<and> calls (handler P env net req) = [meta_call env]
       \<and> puts (calls (handler P env net req)) = []"
  using assms by (simp add: handler_defs ok_def meta_call_def)

theorem post_not_found_aborts_witness:
  "valid_config env0 \<and> req_method req_post = ''POST'' \<and> status resp_not_found = 404
   \<and> res_status (res (handler P0 env0 (remote_of resp_not_found resp_created) req_post)) = 404
   \<and> calls (handler P0 env0 (remote_of resp_not_found resp_created) req_post) = [meta_call env0]"
  using post_not_found_aborts [where env = env0 and req = req_post and r = resp_not_found
      and net = "remote_of resp_not_found resp_created" and P = P0,
      OF env0_valid post_req(1) remote_of_meta status_not_found(1)]
    env0_valid post_req(1) status_not_found(1)
  by simp

subsection \<open>C2: the metadata fetch comes first\<close>

text \<open>
  Claim C2 says that whenever the metadata fetch succeeds, the PUT includes the token of the
  metadata response. The handler builds the PUT from the request body: for a request without a
  body \<^verbatim>\<open>JSON.stringify\<close> gives \<^verbatim>\<open>undefined\<close>, \<^verbatim>\<open>Buffer.from\<close> throws at line 49, and the
  \<^verbatim>\<open>catch\<close> of line 75 answers 500. In the run below the metadata fetch succeeds with the
  token \<^verbatim>\<open>"abc123"\<close> and the POST has no body: the metadata fetch is the only call and no
  PUT is sent.
\<close>

theorem post_without_body_sends_no_put:
  "valid_config env0 \<and> req_method req_post_nobody = ''POST''
   \<and> remote_of resp_meta_abc resp_created [] (meta_call env0) = Inr resp_meta_abc
   \<and> ok resp_meta_abc
   \<and> response_json P0 resp_meta_abc = Inr meta_abc
   \<and> get_prop P0 meta_abc ''sha'' = Inr (Some (JStr ''abc123''))
   \<and> calls (handler P0 env0 (remote_of resp_meta_abc resp_created) req_post_nobody) = [meta_call env0]
   \<and> puts (calls (handler P0 env0 (remote_of resp_meta_abc resp_created) req_post_nobody)) = []
   \<and> res_status (res (handler P0 env0 (remote_of resp_meta_abc resp_created) req_post_nobody)) = 500"
proof -
  have "calls (handler P0 env0 (remote_of resp_meta_abc resp_created) req_post_nobody) = [meta_call env0]
       \<and> res_status (res (handler P0 env0 (remote_of resp_meta_abc resp_created) req_post_nobody)) = 500"
    by (rule post_no_put [where r = resp_meta_abc])
       (simp_all add: env0_valid nobody_req remote_of_meta ok_meta_abc)
  then show ?thesis
    by (simp add: env0_valid nobody_req remote_of_meta ok_meta_abc json_meta_abc sha_meta_abc
        meta_call_fields)
qed

text \<open>
  Claim C2 as amended: for every POST under a valid configuration, the metadata fetch (a GET of
  the contents URL with the JSON accept header and no body) is the first call, and the only
  other call of the run, if any, is one PUT after it. If the metadata fetch returns a
  non-success status, the handler answers with that status and the PUT is never issued. If it
  succeeds, its JSON carries a truthy \<^verbatim>\<open>sha\<close> and the request has a body, the PUT is issued
  and the body it sends is the JSON text of the message, the content, the branch and that
  \<^verbatim>\<open>sha\<close>. If it succeeds and the request has no body, no PUT is issued and the answer
  is 500.
\<close>

theorem metadata_before_put:
  assumes "valid_config env" "req_method req = ''POST''"
  shows "(calls (handler P env net req) = [meta_call env]
          \<or> (\<exists>c2. calls (handler P env net req) = [meta_call env, c2] \<and> http_method c2 = ''PUT''))
       \<and> http_method (meta_call env) = ''GET'' \<and> url (meta_call env) = apiBase env
       \<and> payload (meta_call env) = None
       \<and> headers (meta_call env) =
           [(''Authorization'', ''token '' @ interp (GITHUB_TOKEN env)),
            (''Accept'', ''application/vnd.github.v3+json'')]
       \<and> (net [] (meta_call env) = Inr r \<and> \<not> ok r \<longrightarrow>
            res_status (res (handler P env net req)) = status r
            \<and> calls (handler P env net req) = [meta_call env])
       \<and> (net [] (meta_call env) = Inr r \<and> ok r \<and> response_json P r = Inr meta
            \<and> get_prop P meta ''sha'' = Inr (Some s) \<and> truthy (Some s) \<and> body req = Some b \<longrightarrow>
            calls (handler P env net req) =
              [meta_call env, put_call env (putBody env req (base64 (pretty b)) (Some s))]
            \<and> http_method (put_call env (putBody env req (base64 (pretty b)) (Some s))) = ''PUT''
            \<and> url (put_call env (putBody env req (base64 (pretty b)) (Some s))) = putUrl env
            \<and> payload (put_call env (putBody env req (base64 (pretty b)) (Some s))) =
                JSON_stringify (Some (JObj (putBody env req (base64 (pretty b)) (Some s)))) 0
            \<and> payload (put_call env (putBody env req (base64 (pretty b)) (Some s))) =
                Some (''{'' @ quote ''message'' @ '':''
                      @ ser [] [] (or_else (query_message req) (JStr default_message))
                      @ '','' @ quote ''content'' @ '':'' @ quote (base64 (pretty b))
                      @ '','' @ quote ''branch'' @ '':'' @ quote (branch env)
                      @ '','' @ quote ''sha'' @ '':'' @ ser [] [] s @ ''}'')
            \<and> map_of (putBody env req (base64 (pretty b)) (Some s)) ''sha'' = Some s)
       \<and> (net [] (meta_call env) = Inr r \<and> ok r \<and> body req = None \<longrightarrow>
            calls (handler P env net req) = [meta_call env]
            \<and> res_status (res (handler P env net req)) = 500)"
proof (intro conjI impI)
  show "calls (handler P env net req) = [meta_call env]
          \<or> (\<exists>c2. calls (handler P env net req) = [meta_call env, c2] \<and> http_method c2 = ''PUT'')"
    using assms by (auto simp: handler_defs put_call_fields split: sum.splits option.splits)
next
  assume "net [] (meta_call env) = Inr r \<and> \<not> ok r"
  then show "res_status (res (handler P env net req)) = status r"
    and "calls (handler P env net req) = [meta_call env]"
    using assms by (simp_all add: handler_defs)
next
  assume h: "net [] (meta_call env) = Inr r \<and> ok r \<and> response_json P r = Inr meta
            \<and> get_prop P meta ''sha'' = Inr (Some s) \<and> truthy (Some s) \<and> body req = Some b"
  then show "calls (handler P env net req) =
              [meta_call env, put_call env (putBody env req (base64 (pretty b)) (Some s))]"
    using assms by (simp add: post_issues_put)
  from h show "payload (put_call env (putBody env req (base64 (pretty b)) (Some s))) =
                Some (''{'' @ quote ''message'' @ '':''
                      @ ser [] [] (or_else (query_message req) (JStr default_message))
                      @ '','' @ quote ''content'' @ '':'' @ quote (base64 (pretty b))
                      @ '','' @ quote ''branch'' @ '':'' @ quote (branch env)
                      @ '','' @ quote ''sha'' @ '':'' @ ser [] [] s @ ''}'')"
    by (simp add: put_payload)
  from h show "map_of (putBody env req (base64 (pretty b)) (Some s)) ''sha'' = Some s"
    by (simp add: putBody_def)
next
  assume h: "net [] (meta_call env) = Inr r \<and> ok r \<and> body req = None"
  then have "calls (handler P env net req) = [meta_call env]
       \<and> res_status (res (handler P env net req)) = 500"
    using assms by (intro post_no_put [where r = r]) simp_all
  then show "calls (handler P env net req) = [meta_call env]"
    and "res_status (res (handler P env net req)) = 500"
    by simp_all
qed (simp_all add: meta_call_fields put_call_fields)

theorem metadata_before_put_witness:
  "valid_config env0 \<and> req_method req_post = ''POST'' \<and> req_method req_post_nobody = ''POST''
   \<and> \<not> ok resp_not_found \<and> ok resp_meta_abc \<and> truthy (Some (JStr ''abc123''))
   \<and> body req_post = Some rooms3 \<and> body req_post_nobody = None
   \<and> res_status (res (handler P0 env0 (remote_of resp_not_found resp_created) req_post))
       = status resp_not_found
   \<and> calls (handler P0 env0 (remote_of resp_not_found resp_created) req_post) = [meta_call env0]
   \<and> calls (handler P0 env0 (remote_of resp_meta_abc resp_created) req_post) =
       [meta_call env0,
        put_call env0 (putBody env0 req_post (base64 (pretty rooms3)) (Some (JStr ''abc123'')))]
   \<and> payload (put_call env0 (putBody env0 req_post (base64 (pretty rooms3)) (Some (JStr ''abc123'')))) =
       Some (''{'' @ quote ''message'' @ '':''
             @ ser [] [] (or_else (query_message req_post) (JStr default_message))
             @ '','' @ quote ''content'' @ '':'' @ quote (base64 (pretty rooms3))
             @ '','' @ quote ''branch'' @ '':'' @ quote (branch env0)
             @ '','' @ quote ''sha'' @ '':'' @ ser [] [] (JStr ''abc123'') @ ''}'')
   \<and> calls (handler P0 env0 (remote_of resp_meta_abc resp_created) req_post_nobody) = [meta_call env0]
   \<and> res_status (res (handler P0 env0 (remote_of resp_meta_abc resp_created) req_post_nobody)) = 500
   \<and> calls (handler P0 env0 (remote_of resp_meta_abc resp_created) req_post) =
     [\<lparr>url = ''https://api.github.com/repos/faizan/carepro-accommodation/contents/data.json?ref=main'',
       http_method = ''GET'',
       headers = [(''Authorization'', ''token t0k''), (''Accept'', ''application/vnd.github.v3+json'')],
       payload = None\<rparr>,
      \<lparr>url = ''https://api.github.com/repos/faizan/carepro-accommodation/contents/data.json'',
       http_method = ''PUT'',
       headers = [(''Authorization'', ''token t0k''), (''Accept'', ''application/vnd.github.v3+json''),
                  (''Content-Type'', ''application/json'')],
       payload = Some (''{'' @ [CHR 0x22] @ ''message'' @ [CHR 0x22] @ '':''
                       @ [CHR 0x22] @ ''Update data.json via app'' @ [CHR 0x22]
                       @ '','' @ [CHR 0x22] @ ''content'' @ [CHR 0x22] @ '':''
                       @ [CHR 0x22] @ ''ewogICJyb29tcyI6IDMKfQ=='' @ [CHR 0x22]
                       @ '','' @ [CHR 0x22] @ ''branch'' @ [CHR 0x22] @ '':''
                       @ [CHR 0x22] @ ''main'' @ [CHR 0x22]
                       @ '','' @ [CHR 0x22] @ ''sha'' @ [CHR 0x22] @ '':''
                       @ [CHR 0x22] @ ''abc123'' @ [CHR 0x22] @ ''}'')\<rparr>]"
proof -
  note t1 = metadata_before_put [where env = env0 and req = req_post and r = resp_not_found
      and net = "remote_of resp_not_found resp_created" and P = P0, OF env0_valid post_req(1)]
  have h1: "remote_of resp_not_found resp_created [] (meta_call env0) = Inr resp_not_found
            \<and> \<not> ok resp_not_found"
    by (simp add: remote_of_meta not_ok_not_found)
  from t1 h1
  have a: "res_status (res (handler P0 env0 (remote_of resp_not_found resp_created) req_post))
       = status resp_not_found
   \<and> calls (handler P0 env0 (remote_of resp_not_found resp_created) req_post) = [meta_call env0]"
    by blast
  note t2 = metadata_before_put [where env = env0 and req = req_post and r = resp_meta_abc and P = P0
      and net = "remote_of resp_meta_abc resp_created" and meta = meta_abc
      and s = "JStr ''abc123''" and b = rooms3, OF env0_valid post_req(1)]
  have d: "truthy (Some (JStr ''abc123''))"
    by simp
  have h2: "remote_of resp_meta_abc resp_created [] (meta_call env0) = Inr resp_meta_abc
            \<and> ok resp_meta_abc \<and> response_json P0 resp_meta_abc = Inr meta_abc
            \<and> get_prop P0 meta_abc ''sha'' = Inr (Some (JStr ''abc123''))
            \<and> truthy (Some (JStr ''abc123'')) \<and> body req_post = Some rooms3"
    by (simp add: remote_of_meta ok_meta_abc json_meta_abc sha_meta_abc post_req)
  from t2 h2
  have b: "calls (handler P0 env0 (remote_of resp_meta_abc resp_created) req_post) =
       [meta_call env0,
        put_call env0 (putBody env0 req_post (base64 (pretty rooms3)) (Some (JStr ''abc123'')))]
   \<and> payload (put_call env0 (putBody env0 req_post (base64 (pretty rooms3)) (Some (JStr ''abc123'')))) =
       Some (''{'' @ quote ''message'' @ '':''
             @ ser [] [] (or_else (query_message req_post) (JStr default_message))
             @ '','' @ quote ''content'' @ '':'' @ quote (base64 (pretty rooms3))
             @ '','' @ quote ''branch'' @ '':'' @ quote (branch env0)
             @ '','' @ quote ''sha'' @ '':'' @ ser [] [] (JStr ''abc123'') @ ''}'')"
    by blast
  note t3 = metadata_before_put [where env = env0 and req = req_post_nobody and r = resp_meta_abc
      and P = P0 and net = "remote_of resp_meta_abc resp_created", OF env0_valid nobody_req(1)]
  have h3: "remote_of resp_meta_abc resp_created [] (meta_call env0) = Inr resp_meta_abc
            \<and> ok resp_meta_abc \<and> body req_post_nobody = None"
    by (simp add: remote_of_meta ok_meta_abc nobody_req)
  from t3 h3
  have c: "calls (handler P0 env0 (remote_of resp_meta_abc resp_created) req_post_nobody) = [meta_call env0]
   \<and> res_status (res (handler P0 env0 (remote_of resp_meta_abc resp_created) req_post_nobody)) = 500"
    by blast
  from a b c d run_abc_wire env0_valid post_req(1,2) nobody_req(1,2) not_ok_not_found ok_meta_abc
  show ?thesis
    by blast
qed

subsection \<open>C3: a successful GET\<close>

text \<open>
  Claim C3: for every GET under a valid configuration whose fetch succeeds with the text \<open>t\<close>,
  the handler answers 200; the body is the parsed value when \<open>t\<close> parses as JSON and
  \<^verbatim>\<open>{raw: t}\<close>, with the text unchanged, when it does not.
\<close>

theorem get_success:
  assumes "valid_config env" "req_method req = ''GET''"
    and "net [] (get_call env) = Inr r" "ok r" "body_text r = Inr t"
  shows "res_status (res (handler P env net req)) = 200
       \<and> res_body (res (handler P env net req)) =
           Some (case JSON_parse P t of Inr obj \<Rightarrow> obj | Inl e \<Rightarrow> JObj [(''raw'', JStr t)])
       \<and> calls (handler P env net req) = [get_call env]"
  using assms by (simp add: handler_defs split: sum.splits)

theorem get_success_witness:
  "valid_config env0 \<and> req_method req_get = ''GET'' \<and> ok resp_rooms \<and> ok resp_plain
   \<and> res_status (res (handler P0 env0 (remote_of resp_rooms resp_created) req_get)) = 200
   \<and> res_body (res (handler P0 env0 (remote_of resp_rooms resp_created) req_get)) = Some rooms3
   \<and> res_status (res (handler P0 env0 (remote_of resp_plain resp_created) req_get)) = 200
   \<and> res_body (res (handler P0 env0 (remote_of resp_plain resp_created) req_get))
       = Some (JObj [(''raw'', JStr ''hello, world'')])"
proof -
  have g: "req_method req_get = ''GET''"
    by (simp add: req_get_def)
  have t: "body_text resp_rooms = Inr (ser [] [] rooms3)" "body_text resp_plain = Inr ''hello, world''"
    by (simp_all add: resp_rooms_def resp_plain_def resp_def)
  show ?thesis
    using get_success [where env = env0 and req = req_get and r = resp_rooms and P = P0
        and net = "remote_of resp_rooms resp_created", OF env0_valid g remote_of_get ok_rooms t(1)]
      get_success [where env = env0 and req = req_get and r = resp_plain and P = P0
        and net = "remote_of resp_plain resp_created", OF env0_valid g remote_of_get ok_plain t(2)]
      env0_valid g ok_rooms ok_plain
    by (simp add: parse_rooms parse_plain)
qed

subsection \<open>C4: a read or a metadata fetch that fails upstream\<close>

text \<open>
  Claim C4 says that the upstream status code and the upstream error payload are relayed
  unchanged. The status code is; the payload is not. The handler never reads the body of a
  failed response: it answers with a payload of its own that holds a fixed label and the
  status text. In the run below the remote API answers 404 with the body
  \<^verbatim>\<open>{"message":"Not Found"}\<close>, and the handler's body is another value.
\<close>

theorem upstream_payload_not_relayed:
  "\<not> ok resp_not_found
   \<and> response_json P0 resp_not_found = Inr not_found
   \<and> res_body (res (handler P0 env0 (remote_of resp_not_found resp_created) req_get))
       = Some (JObj [(''error'', JStr ''GitHub GET failed''), (''status'', JStr ''Not Found'')])
   \<and> res_body (res (handler P0 env0 (remote_of resp_not_found resp_created) req_get)) \<noteq> Some not_found"
proof -
  have "res_body (res (handler P0 env0 (remote_of resp_not_found resp_created) req_get))
       = Some (JObj [(''error'', JStr ''GitHub GET failed''), (''status'', JStr ''Not Found'')])"
    by (simp add: handler_defs ok_def get_call_def env0_def req_get_def remote_of_def
      resp_not_found_def resp_def)
  then show ?thesis
    by (simp add: not_ok_not_found json_not_found not_found_def)
qed

text \<open>
  Claim C4 as amended: when the fetch of a GET or the metadata fetch of a POST returns a
  non-success status, the handler answers with that status code and with a payload made of a
  fixed error label (\<^verbatim>\<open>'GitHub GET failed'\<close>, \<^verbatim>\<open>'Could not fetch file metadata'\<close>) and the
  upstream status text; the failed call is the only call of the run, so nothing is retried.
\<close>

theorem upstream_failure_relayed:
  assumes "valid_config env" "\<not> ok r"
  shows "(req_method req = ''GET'' \<and> net [] (get_call env) = Inr r \<longrightarrow>
            res_status (res (handler P env net req)) = status r
            \<and> res_body (res (handler P env net req)) =
                Some (JObj [(''error'', JStr ''GitHub GET failed''), (''status'', JStr (statusText r))])
            \<and> calls (handler P env net req) = [get_call env])
       \<and> (req_method req = ''POST'' \<and> net [] (meta_call env) = Inr r \<longrightarrow>
            res_status (res (handler P env net req)) = status r
            \<and> res_body (res (handler P env net req)) =
                Some (JObj [(''error'', JStr ''Could not fetch file metadata''),
                            (''status'', JStr (statusText r))])
            \<and> calls (handler P env net req) = [meta_call env])"
  using assms by (simp add: handler_defs)

theorem upstream_failure_relayed_witness:
  "valid_config env0 \<and> \<not> ok resp_not_found \<and> req_method req_get = ''GET'' \<and> req_method req_post = ''POST''
   \<and> res_status (res (handler P0 env0 (remote_of resp_not_found resp_created) req_get)) = 404
   \<and> calls (handler P0 env0 (remote_of resp_not_found resp_created) req_get) = [get_call env0]
   \<and> res_status (res (handler P0 env0 (remote_of resp_not_found resp_created) req_post)) = 404
   \<and> calls (handler P0 env0 (remote_of resp_not_found resp_created) req_post) = [meta_call env0]"
  using upstream_failure_relayed [where env = env0 and req = req_get and r = resp_not_found
      and net = "remote_of resp_not_found resp_created" and P = P0, OF env0_valid not_ok_not_found]
    upstream_failure_relayed [where env = env0 and req = req_post and r = resp_not_found
      and net = "remote_of resp_not_found resp_created" and P = P0, OF env0_valid not_ok_not_found]
    env0_valid not_ok_not_found
  by (simp add: remote_of_meta remote_of_get post_req req_get_def status_not_found)

subsection \<open>C5: missing configuration\<close>

text \<open>
  Claim C5: for every request, whatever its method, when the access token or the repository
  identifier is missing from the configuration (unset, or set to the empty string), the
  handler answers 500 and makes no outbound call.
\<close>

theorem config_missing_500:
  assumes "\<not> truthy_str (GITHUB_TOKEN env) \<or> \<not> truthy_str (GITHUB_REPO env)"
  shows "res_status (res (handler P env net req)) = 500
       \<and> res_body (res (handler P env net req)) =
           Some (JObj [(''error'', JStr ''Missing GITHUB_TOKEN or GITHUB_REPO environment variables'')])
       \<and> calls (handler P env net req) = []"
  using assms by (auto simp: handler_def send_def world0_def)

theorem config_missing_500_witness:
  "GITHUB_TOKEN env_no_token = None
   \<and> res_status (res (handler P0 env_no_token (remote_of resp_plain resp_created) req_get)) = 500
   \<and> calls (handler P0 env_no_token (remote_of resp_plain resp_created) req_get) = []"
proof -
  have t: "GITHUB_TOKEN env_no_token = None"
    by (simp add: env_no_token_def)
  then have h: "\<not> truthy_str (GITHUB_TOKEN env_no_token) \<or> \<not> truthy_str (GITHUB_REPO env_no_token)"
    by simp
  show ?thesis
    using config_missing_500 [OF h, of P0 "remote_of resp_plain resp_created" req_get] t
    by simp
qed

subsection \<open>C6: the example with the body \<^verbatim>\<open>{"rooms": 3}\<close>\<close>

text \<open>
  Claim C6: for a POST with the body \<^verbatim>\<open>{"rooms": 3}\<close> whose metadata fetch succeeds with the
  revision token \<^verbatim>\<open>"abc123"\<close>, the PUT is issued, the \<^verbatim>\<open>content\<close> field of its body decodes
  from base64 to an opening brace, a newline, two blanks and \<^verbatim>\<open>"rooms": 3\<close>, a newline and a
  closing brace, and its body has \<^verbatim>\<open>sha: "abc123"\<close>. The body is stated as the object
  of lines 53 to 58 and as the JSON text that line 63 sends.
\<close>

theorem rooms_example:
  assumes "valid_config env" "req_method req = ''POST''" "body req = Some rooms3"
    and "net [] (meta_call env) = Inr r" "ok r" "response_json P r = Inr meta"
    and "get_prop P meta ''sha'' = Inr (Some (JStr ''abc123''))"
  shows "calls (handler P env net req) =
           [meta_call env,
            put_call env (putBody env req ''ewogICJyb29tcyI6IDMKfQ=='' (Some (JStr ''abc123'')))]
       \<and> http_method (put_call env (putBody env req ''ewogICJyb29tcyI6IDMKfQ=='' (Some (JStr ''abc123'')))) = ''PUT''
       \<and> payload (put_call env (putBody env req ''ewogICJyb29tcyI6IDMKfQ=='' (Some (JStr ''abc123''))))
           = JSON_stringify
               (Some (JObj (putBody env req ''ewogICJyb29tcyI6IDMKfQ=='' (Some (JStr ''abc123''))))) 0
       \<and> payload (put_call env (putBody env req ''ewogICJyb29tcyI6IDMKfQ=='' (Some (JStr ''abc123''))))
           = Some (''{'' @ quote ''message'' @ '':''
                   @ ser [] [] (or_else (query_message req) (JStr default_message))
                   @ '','' @ quote ''content'' @ '':'' @ quote ''ewogICJyb29tcyI6IDMKfQ==''
                   @ '','' @ quote ''branch'' @ '':'' @ quote (branch env)
                   @ '','' @ quote ''sha'' @ '':'' @ quote ''abc123'' @ ''}'')
       \<and> map_of (putBody env req ''ewogICJyb29tcyI6IDMKfQ=='' (Some (JStr ''abc123''))) ''content''
           = Some (JStr ''ewogICJyb29tcyI6IDMKfQ=='')
       \<and> base64_decode ''ewogICJyb29tcyI6IDMKfQ==''
           = Some (''{'' @ [newline] @ ''  '' @ [dquote] @ ''rooms'' @ [dquote] @ '': 3'' @ [newline] @ ''}'')
       \<and> map_of (putBody env req ''ewogICJyb29tcyI6IDMKfQ=='' (Some (JStr ''abc123''))) ''sha''
           = Some (JStr ''abc123'')"
proof -
  have "base64_decode (base64 (pretty rooms3)) = Some (pretty rooms3)"
    by (rule base64_decode_base64)
  then have "base64_decode ''ewogICJyb29tcyI6IDMKfQ=='' = Some (pretty rooms3)"
    by (simp only: base64_rooms3)
  then have dec: "base64_decode ''ewogICJyb29tcyI6IDMKfQ==''
           = Some (''{'' @ [newline] @ ''  '' @ [dquote] @ ''rooms'' @ [dquote] @ '': 3'' @ [newline] @ ''}'')"
    by (simp only: pretty_rooms3)
  have "calls (handler P env net req) =
           [meta_call env,
            put_call env (putBody env req (base64 (pretty rooms3)) (Some (JStr ''abc123'')))]"
    by (rule post_issues_put [where net = net and r = r and meta = meta, OF assms(1,2,4,5,6,7,3)])
  then have c: "calls (handler P env net req) =
           [meta_call env,
            put_call env (putBody env req ''ewogICJyb29tcyI6IDMKfQ=='' (Some (JStr ''abc123'')))]"
    by (simp only: base64_rooms3)
  have p: "payload (put_call env (putBody env req ''ewogICJyb29tcyI6IDMKfQ=='' (Some (JStr ''abc123''))))
           = Some (''{'' @ quote ''message'' @ '':''
                   @ ser [] [] (or_else (query_message req) (JStr default_message))
                   @ '','' @ quote ''content'' @ '':'' @ quote ''ewogICJyb29tcyI6IDMKfQ==''
                   @ '','' @ quote ''branch'' @ '':'' @ quote (branch env)
                   @ '','' @ quote ''sha'' @ '':'' @ quote ''abc123'' @ ''}'')"
    by (simp add: put_payload)
  have f: "map_of (putBody env req ''ewogICJyb29tcyI6IDMKfQ=='' (Some (JStr ''abc123''))) ''content''
           = Some (JStr ''ewogICJyb29tcyI6IDMKfQ=='')"
    "map_of (putBody env req ''ewogICJyb29tcyI6IDMKfQ=='' (Some (JStr ''abc123''))) ''sha''
           = Some (JStr ''abc123'')"
    by (simp_all add: putBody_def)
  from c p f dec put_call_fields(1,3) show ?thesis
    by blast
qed

theorem rooms_example_witness:
  "valid_config env0 \<and> req_method req_post = ''POST'' \<and> body req_post = Some rooms3 \<and> ok resp_meta_abc
   \<and> calls (handler P0 env0 (remote_of resp_meta_abc resp_created) req_post) =
       [meta_call env0,
        put_call env0 (putBody env0 req_post ''ewogICJyb29tcyI6IDMKfQ=='' (Some (JStr ''abc123'')))]
   \<and> map_of (putBody env0 req_post ''ewogICJyb29tcyI6IDMKfQ=='' (Some (JStr ''abc123''))) ''sha''
       = Some (JStr ''abc123'')
   \<and> calls (handler P0 env0 (remote_of resp_meta_abc resp_created) req_post) =
     [\<lparr>url = ''https://api.github.com/repos/faizan/carepro-accommodation/contents/data.json?ref=main'',
       http_method = ''GET'',
       headers = [(''Authorization'', ''token t0k''), (''Accept'', ''application/vnd.github.v3+json'')],
       payload = None\<rparr>,
      \<lparr>url = ''https://api.github.com/repos/faizan/carepro-accommodation/contents/data.json'',
       http_method = ''PUT'',
       headers = [(''Authorization'', ''token t0k''), (''Accept'', ''application/vnd.github.v3+json''),
                  (''Content-Type'', ''application/json'')],
       payload = Some (''{'' @ [CHR 0x22] @ ''message'' @ [CHR 0x22] @ '':''
                       @ [CHR 0x22] @ ''Update data.json via app'' @ [CHR 0x22]
                       @ '','' @ [CHR 0x22] @ ''content'' @ [CHR 0x22] @ '':''
                       @ [CHR 0x22] @ ''ewogICJyb29tcyI6IDMKfQ=='' @ [CHR 0x22]
                       @ '','' @ [CHR 0x22] @ ''branch'' @ [CHR 0x22] @ '':''
                       @ [CHR 0x22] @ ''main'' @ [CHR 0x22]
                       @ '','' @ [CHR 0x22] @ ''sha'' @ [CHR 0x22] @ '':''
                       @ [CHR 0x22] @ ''abc123'' @ [CHR 0x22] @ ''}'')\<rparr>]"
proof -
  note t = rooms_example [where env = env0 and req = req_post and r = resp_meta_abc and P = P0
      and net = "remote_of resp_meta_abc resp_created" and meta = meta_abc,
      OF env0_valid post_req(1) post_req(2) remote_of_meta ok_meta_abc json_meta_abc sha_meta_abc]
  from t run_abc_wire env0_valid post_req(1) post_req(2) ok_meta_abc show ?thesis
    by blast
qed

subsection \<open>C7: the outcome of the PUT\<close>

text \<open>
  Claim C7 says that a POST whose PUT is issued is answered with the PUT's status when that
  is a non-success status, and with 200 when the PUT succeeds. That holds only when the body of
  the PUT's response is JSON: line 66 parses it before line 67 looks at the status, and a body
  that does not parse throws into the \<^verbatim>\<open>catch\<close> of line 75. In the run below the PUT is
  answered 502 with an HTML page, and the handler answers 500.
\<close>

theorem put_unparsable_500:
  "calls (handler P0 env0 (remote_of resp_meta_abc resp_bad_gateway) req_post) =
     [meta_call env0, put_call env0 (putBody env0 req_post (base64 (pretty rooms3)) (Some (JStr ''abc123'')))]
   \<and> remote_of resp_meta_abc resp_bad_gateway [meta_call env0]
        (put_call env0 (putBody env0 req_post (base64 (pretty rooms3)) (Some (JStr ''abc123''))))
       = Inr resp_bad_gateway
   \<and> \<not> ok resp_bad_gateway \<and> status resp_bad_gateway = 502
   \<and> res_status (res (handler P0 env0 (remote_of resp_meta_abc resp_bad_gateway) req_post)) = 500"
proof -
  have "res_status (res (handler P0 env0 (remote_of resp_meta_abc resp_bad_gateway) req_post)) = 500"
    using env0_valid
    by (simp add: handler_defs JSON_stringify_pretty remote_of_meta remote_of_put ok_meta_abc
        json_meta_abc json_bad_gateway sha_meta_abc post_req)
  then show ?thesis
    by (simp add: run_abc post_req remote_of_put not_ok_bad_gateway status_bad_gateway)
qed

text \<open>
  Claim C7 as amended: for every request whose PUT is issued (the run makes two calls, the
  second being the PUT) and answered by a response \<open>r\<close>: when the body of \<open>r\<close> parses as the
  JSON value \<open>j\<close>, the handler answers with the status of \<open>r\<close> and
  \<^verbatim>\<open>{error: 'GitHub PUT failed', detail: j}\<close> if that status is a non-success status, and with
  200 and \<^verbatim>\<open>{message: <confirmation>, result: j}\<close> if it is a success status; when the body
  cannot be read or parsed, the handler logs the error and answers 500 with
  \<^verbatim>\<open>{error: 'Server error', detail: <the error's message>}\<close>, whatever the status of \<open>r\<close>.
\<close>

theorem put_outcome:
  assumes "calls (handler P env net req) = [c1, c2]" "net [c1] c2 = Inr r"
  shows "(response_json P r = Inr j \<and> \<not> ok r \<longrightarrow>
            res_status (res (handler P env net req)) = status r
            \<and> res_body (res (handler P env net req)) =
                Some (JObj [(''error'', JStr ''GitHub PUT failed''), (''detail'', j)]))
       \<and> (response_json P r = Inr j \<and> ok r \<longrightarrow>
            res_status (res (handler P env net req)) = 200
            \<and> res_body (res (handler P env net req)) =
                Some (JObj [(''message'', JStr saved_message), (''result'', j)]))
       \<and> (response_json P r = Inl e \<longrightarrow>
            res_status (res (handler P env net req)) = 500
            \<and> res_body (res (handler P env net req)) =
                Some (JObj [(''error'', JStr ''Server error''), (''detail'', JStr (message e))])
            \<and> console (handler P env net req) = [e])"
proof -
  from two_calls [OF assms(1)] obtain mr meta sha b where
    v: "valid_config env" and m: "req_method req = ''POST''" and c1: "c1 = meta_call env"
    and mr: "net [] (meta_call env) = Inr mr" "ok mr" "response_json P mr = Inr meta"
      "get_prop P meta ''sha'' = Inr sha" "body req = Some b"
    and c2: "c2 = put_call env (putBody env req (base64 (pretty b)) sha)"
    by blast
  from assms(2) c1 c2
  have p: "net [meta_call env] (put_call env (putBody env req (base64 (pretty b)) sha)) = Inr r"
    by simp
  show ?thesis
    using v m mr p by (simp add: handler_defs JSON_stringify_pretty)
qed

theorem put_outcome_witness:
  "calls (handler P0 env0 (remote_of resp_meta_abc resp_conflict) req_post) =
     [meta_call env0, put_call env0 (putBody env0 req_post (base64 (pretty rooms3)) (Some (JStr ''abc123'')))]
   \<and> \<not> ok resp_conflict \<and> ok resp_created
   \<and> res_status (res (handler P0 env0 (remote_of resp_meta_abc resp_conflict) req_post)) = 409
   \<and> res_body (res (handler P0 env0 (remote_of resp_meta_abc resp_conflict) req_post))
       = Some (JObj [(''error'', JStr ''GitHub PUT failed''), (''detail'', not_found)])
   \<and> res_status (res (handler P0 env0 (remote_of resp_meta_abc resp_created) req_post)) = 200
   \<and> res_body (res (handler P0 env0 (remote_of resp_meta_abc resp_created) req_post))
       = Some (JObj [(''message'', JStr saved_message), (''result'', commit_info)])
   \<and> res_status (res (handler P0 env0 (remote_of resp_meta_abc resp_bad_gateway) req_post)) = 500"
  using put_outcome [where env = env0 and req = req_post and r = resp_conflict and P = P0
      and net = "remote_of resp_meta_abc resp_conflict" and j = not_found,
      OF run_abc [OF post_req(2) post_req(1)] remote_of_put]
    put_outcome [where env = env0 and req = req_post and r = resp_created and P = P0
      and net = "remote_of resp_meta_abc resp_created" and j = commit_info,
      OF run_abc [OF post_req(2) post_req(1)] remote_of_put]
    put_outcome [where env = env0 and req = req_post and r = resp_bad_gateway and P = P0
      and net = "remote_of resp_meta_abc resp_bad_gateway" and e = "JsError ''Unexpected token''",
      OF run_abc [OF post_req(2) post_req(1)] remote_of_put]
    run_abc [OF post_req(2) post_req(1), of resp_conflict]
  by (simp add: json_conflict json_created json_bad_gateway not_ok_conflict ok_created
      status_conflict)

subsection \<open>C8: the fields of the PUT body\<close>

text \<open>
  Claim C8 says that the commit message is the \<^verbatim>\<open>message\<close> query parameter whenever that
  parameter is supplied. Line 54 takes the parameter with \<^verbatim>\<open>||\<close>, so a parameter that is
  supplied but empty gives way to the default. In the run below the request is
  \<^verbatim>\<open>POST ...?message=\<close> and the PUT carries the default message.
\<close>

theorem empty_message_defaulted:
  "query_message req_post_empty_msg = Some (JStr [])
   \<and> calls (handler P0 env0 (remote_of resp_meta_abc resp_created) req_post_empty_msg) =
       [meta_call env0,
        put_call env0 (putBody env0 req_post_empty_msg (base64 (pretty rooms3)) (Some (JStr ''abc123'')))]
   \<and> map_of (putBody env0 req_post_empty_msg (base64 (pretty rooms3)) (Some (JStr ''abc123''))) ''message''
       = Some (JStr ''Update data.json via app'')
   \<and> JStr ''Update data.json via app'' \<noteq> JStr []"
proof -
  have q: "query_message req_post_empty_msg = Some (JStr [])"
    by (simp add: query_message_def req_post_empty_msg_def)
  then have "map_of (putBody env0 req_post_empty_msg (base64 (pretty rooms3)) (Some (JStr ''abc123''))) ''message''
       = Some (JStr ''Update data.json via app'')"
    by (simp add: putBody_def default_message_def)
  with q run_abc [OF post_req(6) post_req(5), of resp_created] show ?thesis
    by simp
qed

text \<open>
  Claim C8 as amended: for every request whose PUT is issued (the run makes two calls, the
  second being the PUT), the PUT body's commit message equals the request's \<^verbatim>\<open>message\<close> query
  parameter when that parameter is supplied and truthy (for a string: not empty), and equals
  \<^verbatim>\<open>"Update data.json via app"\<close> otherwise; the PUT body always carries the content, which is
  the base64 encoding of the pretty-printed request body and decodes to it, and the configured
  target branch (\<^verbatim>\<open>BRANCH\<close>, or \<^verbatim>\<open>main\<close> when that is unset or empty). The body is stated
  as the object of lines 53 to 58 and as the JSON text that line 63 sends.
\<close>

theorem put_body_fields:
  assumes "calls (handler P env net req) = [c1, c2]"
  shows "\<exists>pb b. c2 = put_call env pb \<and> body req = Some b
           \<and> http_method c2 = ''PUT''
           \<and> payload c2 = JSON_stringify (Some (JObj pb)) 0
           \<and> (\<exists>rest. payload c2 =
                 Some (''{'' @ quote ''message'' @ '':''
                       @ ser [] [] (or_else (query_message req) (JStr default_message))
                       @ '','' @ quote ''content'' @ '':'' @ quote (base64 (pretty b))
                       @ '','' @ quote ''branch'' @ '':''
                       @ quote (case BRANCH env of None \<Rightarrow> ''main''
                                | Some s \<Rightarrow> if s = [] then ''main'' else s)
                       @ rest @ ''}''))
           \<and> map_of pb ''message'' = Some (or_else (query_message req) (JStr default_message))
           \<and> (\<forall>m. query_message req = Some m \<and> truthy (Some m) \<longrightarrow> map_of pb ''message'' = Some m)
           \<and> (\<not> truthy (query_message req) \<longrightarrow> map_of pb ''message'' = Some (JStr default_message))
           \<and> map_of pb ''content'' = Some (JStr (base64 (pretty b)))
           \<and> base64_decode (base64 (pretty b)) = Some (pretty b)
           \<and> map_of pb ''branch'' = Some (JStr (branch env))
           \<and> branch env = (case BRANCH env of None \<Rightarrow> ''main''
                            | Some s \<Rightarrow> if s = [] then ''main'' else s)"
proof -
  from two_calls [OF assms] obtain b sha where
    b: "body req = Some b" and c2: "c2 = put_call env (putBody env req (base64 (pretty b)) sha)"
    by blast
  have d: "\<not> truthy (query_message req) \<longrightarrow>
                 or_else (query_message req) (JStr default_message) = JStr default_message"
    by (cases "query_message req") simp_all
  have p: "\<exists>rest. payload c2 =
                 Some (''{'' @ quote ''message'' @ '':''
                       @ ser [] [] (or_else (query_message req) (JStr default_message))
                       @ '','' @ quote ''content'' @ '':'' @ quote (base64 (pretty b))
                       @ '','' @ quote ''branch'' @ '':''
                       @ quote (case BRANCH env of None \<Rightarrow> ''main''
                                | Some s \<Rightarrow> if s = [] then ''main'' else s)
                       @ rest @ ''}'')"
    unfolding c2 put_payload branch_cases [symmetric]
    by (intro exI [of _ "case sha of None \<Rightarrow> []
              | Some s \<Rightarrow> if truthy (Some s) then '','' @ quote ''sha'' @ '':'' @ ser [] [] s else []"])
       simp
  have f: "map_of (putBody env req (base64 (pretty b)) sha) ''message''
             = Some (or_else (query_message req) (JStr default_message))"
    "map_of (putBody env req (base64 (pretty b)) sha) ''content'' = Some (JStr (base64 (pretty b)))"
    "map_of (putBody env req (base64 (pretty b)) sha) ''branch'' = Some (JStr (branch env))"
    by (simp_all add: putBody_def)
  show ?thesis
    using b c2 d p f branch_cases [of env]
    by (intro exI [of _ "putBody env req (base64 (pretty b)) sha"] exI [of _ b])
       (simp add: put_call_fields base64_decode_base64)
qed

theorem put_body_fields_witness:
  "calls (handler P0 env0 (remote_of resp_meta_abc resp_created) req_post_msg) =
     [meta_call env0,
      put_call env0 (putBody env0 req_post_msg (base64 (pretty rooms3)) (Some (JStr ''abc123'')))]
   \<and> query_message req_post_msg = Some (JStr ''nightly sync'')
   \<and> truthy (Some (JStr ''nightly sync''))
   \<and> (\<exists>pb. put_call env0 (putBody env0 req_post_msg (base64 (pretty rooms3)) (Some (JStr ''abc123'')))
              = put_call env0 pb
          \<and> payload (put_call env0 (putBody env0 req_post_msg (base64 (pretty rooms3)) (Some (JStr ''abc123''))))
              = JSON_stringify (Some (JObj pb)) 0
          \<and> map_of pb ''message'' = Some (JStr ''nightly sync''))
   \<and> calls (handler P0 env0 (remote_of resp_meta_abc resp_created) req_post_msg) =
     [\<lparr>url = ''https://api.github.com/repos/faizan/carepro-accommodation/contents/data.json?ref=main'',
       http_method = ''GET'',
       headers = [(''Authorization'', ''token t0k''), (''Accept'', ''application/vnd.github.v3+json'')],
       payload = None\<rparr>,
      \<lparr>url = ''https://api.github.com/repos/faizan/carepro-accommodation/contents/data.json'',
       http_method = ''PUT'',
       headers = [(''Authorization'', ''token t0k''), (''Accept'', ''application/vnd.github.v3+json''),
                  (''Content-Type'', ''application/json'')],
       payload = Some (''{'' @ [CHR 0x22] @ ''message'' @ [CHR 0x22] @ '':''
                       @ [CHR 0x22] @ ''nightly sync'' @ [CHR 0x22]
                       @ '','' @ [CHR 0x22] @ ''content'' @ [CHR 0x22] @ '':''
                       @ [CHR 0x22] @ ''ewogICJyb29tcyI6IDMKfQ=='' @ [CHR 0x22]
                       @ '','' @ [CHR 0x22] @ ''branch'' @ [CHR 0x22] @ '':''
                       @ [CHR 0x22] @ ''main'' @ [CHR 0x22]
                       @ '','' @ [CHR 0x22] @ ''sha'' @ [CHR 0x22] @ '':''
                       @ [CHR 0x22] @ ''abc123'' @ [CHR 0x22] @ ''}'')\<rparr>]"
proof -
  note h = run_abc [OF post_req(4) post_req(3), of resp_created]
  have q: "query_message req_post_msg = Some (JStr ''nightly sync'')"
    by (simp add: query_message_def req_post_msg_def)
  have t: "truthy (Some (JStr ''nightly sync''))"
    by simp
  from put_body_fields [OF h] q t
  have "\<exists>pb. put_call env0 (putBody env0 req_post_msg (base64 (pretty rooms3)) (Some (JStr ''abc123'')))
              = put_call env0 pb
          \<and> payload (put_call env0 (putBody env0 req_post_msg (base64 (pretty rooms3)) (Some (JStr ''abc123''))))
              = JSON_stringify (Some (JObj pb)) 0
          \<and> map_of pb ''message'' = Some (JStr ''nightly sync'')"
    by blast
  with h q t run_msg_wire show ?thesis by blast
qed

subsection \<open>C9: other methods\<close>

text \<open>
  Claim C9 is stated for every request whose method is neither GET nor POST. The
  configuration check of line 17 comes before the method is looked at, so such a request is
  answered 500, without an \<^verbatim>\<open>Allow\<close> header, when the configuration is incomplete. The run
  below is a DELETE with no access token.
\<close>

theorem method_not_allowed_unconfigured:
  "req_method req_delete \<noteq> ''GET'' \<and> req_method req_delete \<noteq> ''POST''
   \<and> res_status (res (handler P0 env_no_token (remote_of resp_plain resp_created) req_delete)) = 500
   \<and> res_headers (res (handler P0 env_no_token (remote_of resp_plain resp_created) req_delete)) = []"
  by (simp add: handler_def send_def world0_def env_no_token_def req_delete_def)

text \<open>
  Claim C9 as amended: for every request under a valid configuration whose method is neither
  GET nor POST, the handler answers 405, sets the response header \<^verbatim>\<open>Allow\<close> to
  \<^verbatim>\<open>GET,POST\<close>, and issues no outbound call.
\<close>

theorem method_not_allowed:
  assumes "valid_config env" "req_method req \<noteq> ''GET''" "req_method req \<noteq> ''POST''"
  shows "res_status (res (handler P env net req)) = 405
       \<and> res_headers (res (handler P env net req)) = [(''Allow'', ''GET,POST'')]
       \<and> res_body (res (handler P env net req)) = Some (JObj [(''error'', JStr ''Method not allowed'')])
       \<and> calls (handler P env net req) = []"
  using assms by (simp add: handler_defs)

theorem method_not_allowed_witness:
  "valid_config env0 \<and> req_method req_delete \<noteq> ''GET'' \<and> req_method req_delete \<noteq> ''POST''
   \<and> res_status (res (handler P0 env0 (remote_of resp_plain resp_created) req_delete)) = 405
   \<and> res_headers (res (handler P0 env0 (remote_of resp_plain resp_created) req_delete))
       = [(''Allow'', ''GET,POST'')]
   \<and> calls (handler P0 env0 (remote_of resp_plain resp_created) req_delete) = []"
proof -
  have m: "req_method req_delete \<noteq> ''GET''" "req_method req_delete \<noteq> ''POST''"
    by (simp_all add: req_delete_def)
  show ?thesis
    using method_not_allowed [OF env0_valid m, of P0 "remote_of resp_plain resp_created"] env0_valid m
    by simp
qed

subsection \<open>C10: when the PUT body has a \<^verbatim>\<open>sha\<close> field\<close>

text \<open>
  Claim C10 is stated for every POST whose metadata fetch returns a success status. Such a
  POST sends a PUT only when the request has a body. In the run below the metadata carries
  the truthy \<^verbatim>\<open>sha\<close> \<^verbatim>\<open>"abc123"\<close> and the POST has no body: no PUT is sent, so no PUT body
  has a \<^verbatim>\<open>sha\<close> field, and the answer is 500.
\<close>

theorem truthy_sha_without_body_no_put:
  "valid_config env0 \<and> req_method req_post_nobody_msg = ''POST''
   \<and> remote_of resp_meta_abc resp_created [] (meta_call env0) = Inr resp_meta_abc
   \<and> ok resp_meta_abc
   \<and> response_json P0 resp_meta_abc = Inr meta_abc
   \<and> get_prop P0 meta_abc ''sha'' = Inr (Some (JStr ''abc123''))
   \<and> truthy (Some (JStr ''abc123''))
   \<and> puts (calls (handler P0 env0 (remote_of resp_meta_abc resp_created) req_post_nobody_msg)) = []
   \<and> res_status (res (handler P0 env0 (remote_of resp_meta_abc resp_created) req_post_nobody_msg)) = 500"
proof -
  have "calls (handler P0 env0 (remote_of resp_meta_abc resp_created) req_post_nobody_msg) = [meta_call env0]
       \<and> res_status (res (handler P0 env0 (remote_of resp_meta_abc resp_created) req_post_nobody_msg)) = 500"
    by (rule post_no_put [where r = resp_meta_abc])
       (simp_all add: env0_valid nobody_req remote_of_meta ok_meta_abc)
  then show ?thesis
    by (simp add: env0_valid nobody_req remote_of_meta ok_meta_abc json_meta_abc sha_meta_abc
        meta_call_fields)
qed

text \<open>
  Claim C10 as amended: for every POST with a request body, under a valid configuration, whose
  metadata fetch returns a success status and a JSON value other than \<^verbatim>\<open>null\<close>, the PUT is
  issued and the body it sends has a \<^verbatim>\<open>sha\<close> field if and only if the \<^verbatim>\<open>sha\<close> of the parsed
  metadata is truthy, and the field then holds that value; metadata without \<^verbatim>\<open>sha\<close>, or with
  a falsy one such as the empty string, gives a PUT body without the field. When the request
  has no body, or the metadata is not JSON, or it is \<^verbatim>\<open>null\<close>, no PUT is issued and the
  answer is 500. (Below \<open>sha\<close> is the value of \<^verbatim>\<open>meta.sha\<close>, \<open>None\<close> when the metadata has no
  such property.)
\<close>

theorem sha_iff_truthy:
  assumes "valid_config env" "req_method req = ''POST''"
    and "net [] (meta_call env) = Inr r" "ok r"
  shows "(response_json P r = Inr meta \<and> get_prop P meta ''sha'' = Inr sha \<and> body req = Some b \<longrightarrow>
            calls (handler P env net req) =
              [meta_call env, put_call env (putBody env req (base64 (pretty b)) sha)]
            \<and> http_method (put_call env (putBody env req (base64 (pretty b)) sha)) = ''PUT''
            \<and> payload (put_call env (putBody env req (base64 (pretty b)) sha)) =
                JSON_stringify (Some (JObj (putBody env req (base64 (pretty b)) sha))) 0
            \<and> payload (put_call env (putBody env req (base64 (pretty b)) sha)) =
                Some (''{'' @ quote ''message'' @ '':''
                      @ ser [] [] (or_else (query_message req) (JStr default_message))
                      @ '','' @ quote ''content'' @ '':'' @ quote (base64 (pretty b))
                      @ '','' @ quote ''branch'' @ '':'' @ quote (branch env)
                      @ (case sha of None \<Rightarrow> []
                         | Some s \<Rightarrow> if truthy (Some s)
                                     then '','' @ quote ''sha'' @ '':'' @ ser [] [] s else [])
                      @ ''}'')
            \<and> (map_of (putBody env req (base64 (pretty b)) sha) ''sha'' \<noteq> None \<longleftrightarrow> truthy sha)
            \<and> map_of (putBody env req (base64 (pretty b)) sha) ''sha''
                = (if truthy sha then sha else None))
       \<and> (body req = None \<or> response_json P r = Inl e
            \<or> (response_json P r = Inr meta \<and> get_prop P meta ''sha'' = Inl e) \<longrightarrow>
            calls (handler P env net req) = [meta_call env]
            \<and> puts (calls (handler P env net req)) = []
            \<and> res_status (res (handler P env net req)) = 500)"
proof (intro conjI impI)
  assume h: "response_json P r = Inr meta \<and> get_prop P meta ''sha'' = Inr sha \<and> body req = Some b"
  then show "calls (handler P env net req) =
           [meta_call env, put_call env (putBody env req (base64 (pretty b)) sha)]"
    using assms by (simp add: post_issues_put)
  show m: "map_of (putBody env req (base64 (pretty b)) sha) ''sha'' = (if truthy sha then sha else None)"
    by (cases sha) (simp_all add: putBody_def)
  show "map_of (putBody env req (base64 (pretty b)) sha) ''sha'' \<noteq> None \<longleftrightarrow> truthy sha"
    unfolding m by (cases sha) auto
  show "payload (put_call env (putBody env req (base64 (pretty b)) sha)) =
                Some (''{'' @ quote ''message'' @ '':''
                      @ ser [] [] (or_else (query_message req) (JStr default_message))
                      @ '','' @ quote ''content'' @ '':'' @ quote (base64 (pretty b))
                      @ '','' @ quote ''branch'' @ '':'' @ quote (branch env)
                      @ (case sha of None \<Rightarrow> []
                         | Some s \<Rightarrow> if truthy (Some s)
                                     then '','' @ quote ''sha'' @ '':'' @ ser [] [] s else [])
                      @ ''}'')"
    by (rule put_payload)
next
  assume h: "body req = None \<or> response_json P r = Inl e
            \<or> (response_json P r = Inr meta \<and> get_prop P meta ''sha'' = Inl e)"
  then have "body req = None \<or> (\<exists>e. response_json P r = Inl e)
         \<or> (\<exists>meta e. response_json P r = Inr meta \<and> get_prop P meta ''sha'' = Inl e)"
    by blast
  with assms have n: "calls (handler P env net req) = [meta_call env]
       \<and> res_status (res (handler P env net req)) = 500"
    by (rule post_no_put)
  then show "calls (handler P env net req) = [meta_call env]"
    and "res_status (res (handler P env net req)) = 500"
    by simp_all
  from n show "puts (calls (handler P env net req)) = []"
    by (simp add: meta_call_fields)
qed (simp_all add: put_call_fields)

theorem sha_iff_truthy_witness:
  "valid_config env0 \<and> req_method req_post = ''POST'' \<and> body req_post = Some rooms3
   \<and> req_method req_post_nobody = ''POST'' \<and> body req_post_nobody = None
   \<and> ok resp_meta_abc \<and> ok resp_meta_no_sha
   \<and> calls (handler P0 env0 (remote_of resp_meta_abc resp_created) req_post) =
       [meta_call env0, put_call env0 (putBody env0 req_post (base64 (pretty rooms3)) (Some (JStr ''abc123'')))]
   \<and> map_of (putBody env0 req_post (base64 (pretty rooms3)) (Some (JStr ''abc123''))) ''sha''
       = (if truthy (Some (JStr ''abc123'')) then Some (JStr ''abc123'') else None)
   \<and> calls (handler P0 env0 (remote_of resp_meta_no_sha resp_created) req_post) =
       [meta_call env0, put_call env0 (putBody env0 req_post (base64 (pretty rooms3)) None)]
   \<and> map_of (putBody env0 req_post (base64 (pretty rooms3)) None) ''sha''
       = (if truthy None then None else None)
   \<and> puts (calls (handler P0 env0 (remote_of resp_meta_abc resp_created) req_post_nobody)) = []
   \<and> calls (handler P0 env0 (remote_of resp_meta_abc resp_created) req_post) =
     [\<lparr>url = ''https://api.github.com/repos/faizan/carepro-accommodation/contents/data.json?ref=main'',
       http_method = ''GET'',
       headers = [(''Authorization'', ''token t0k''), (''Accept'', ''application/vnd.github.v3+json'')],
       payload = None\<rparr>,
      \<lparr>url = ''https://api.github.com/repos/faizan/carepro-accommodation/contents/data.json'',
       http_method = ''PUT'',
       headers = [(''Authorization'', ''token t0k''), (''Accept'', ''application/vnd.github.v3+json''),
                  (''Content-Type'', ''application/json'')],
       payload = Some (''{'' @ [CHR 0x22] @ ''message'' @ [CHR 0x22] @ '':''
                       @ [CHR 0x22] @ ''Update data.json via app'' @ [CHR 0x22]
                       @ '','' @ [CHR 0x22] @ ''content'' @ [CHR 0x22] @ '':''
                       @ [CHR 0x22] @ ''ewogICJyb29tcyI6IDMKfQ=='' @ [CHR 0x22]
                       @ '','' @ [CHR 0x22] @ ''branch'' @ [CHR 0x22] @ '':''
                       @ [CHR 0x22] @ ''main'' @ [CHR 0x22]
                       @ '','' @ [CHR 0x22] @ ''sha'' @ [CHR 0x22] @ '':''
                       @ [CHR 0x22] @ ''abc123'' @ [CHR 0x22] @ ''}'')\<rparr>]
   \<and> calls (handler P0 env0 (remote_of resp_meta_no_sha resp_created) req_post) =
     [\<lparr>url = ''https://api.github.com/repos/faizan/carepro-accommodation/contents/data.json?ref=main'',
       http_method = ''GET'',
       headers = [(''Authorization'', ''token t0k''), (''Accept'', ''application/vnd.github.v3+json'')],
       payload = None\<rparr>,
      \<lparr>url = ''https://api.github.com/repos/faizan/carepro-accommodation/contents/data.json'',
       http_method = ''PUT'',
       headers = [(''Authorization'', ''token t0k''), (''Accept'', ''application/vnd.github.v3+json''),
                  (''Content-Type'', ''application/json'')],
       payload = Some (''{'' @ [CHR 0x22] @ ''message'' @ [CHR 0x22] @ '':''
                       @ [CHR 0x22] @ ''Update data.json via app'' @ [CHR 0x22]
                       @ '','' @ [CHR 0x22] @ ''content'' @ [CHR 0x22] @ '':''
                       @ [CHR 0x22] @ ''ewogICJyb29tcyI6IDMKfQ=='' @ [CHR 0x22]
                       @ '','' @ [CHR 0x22] @ ''branch'' @ [CHR 0x22] @ '':''
                       @ [CHR 0x22] @ ''main'' @ [CHR 0x22] @ ''}'')\<rparr>]"
proof -
  note t1 = sha_iff_truthy [where env = env0 and req = req_post and r = resp_meta_abc and P = P0
      and net = "remote_of resp_meta_abc resp_created" and meta = meta_abc
      and sha = "Some (JStr ''abc123'')" and b = rooms3,
      OF env0_valid post_req(1) remote_of_meta ok_meta_abc]
  have h1: "response_json P0 resp_meta_abc = Inr meta_abc
            \<and> get_prop P0 meta_abc ''sha'' = Inr (Some (JStr ''abc123'')) \<and> body req_post = Some rooms3"
    by (simp add: json_meta_abc sha_meta_abc post_req)
  from t1 h1
  have a: "calls (handler P0 env0 (remote_of resp_meta_abc resp_created) req_post) =
       [meta_call env0, put_call env0 (putBody env0 req_post (base64 (pretty rooms3)) (Some (JStr ''abc123'')))]
   \<and> map_of (putBody env0 req_post (base64 (pretty rooms3)) (Some (JStr ''abc123''))) ''sha''
       = (if truthy (Some (JStr ''abc123'')) then Some (JStr ''abc123'') else None)"
    by blast
  note t2 = sha_iff_truthy [where env = env0 and req = req_post and r = resp_meta_no_sha and P = P0
      and net = "remote_of resp_meta_no_sha resp_created" and meta = meta_no_sha
      and sha = None and b = rooms3,
      OF env0_valid post_req(1) remote_of_meta ok_meta_no_sha]
  have h2: "response_json P0 resp_meta_no_sha = Inr meta_no_sha
            \<and> get_prop P0 meta_no_sha ''sha'' = Inr None \<and> body req_post = Some rooms3"
    by (simp add: json_meta_no_sha sha_meta_no_sha post_req)
  from t2 h2
  have b: "calls (handler P0 env0 (remote_of resp_meta_no_sha resp_created) req_post) =
       [meta_call env0, put_call env0 (putBody env0 req_post (base64 (pretty rooms3)) None)]
   \<and> map_of (putBody env0 req_post (base64 (pretty rooms3)) None) ''sha''
       = (if truthy None then None else None)"
    by blast
  note t3 = sha_iff_truthy [where env = env0 and req = req_post_nobody and r = resp_meta_abc
      and P = P0 and net = "remote_of resp_meta_abc resp_created",
      OF env0_valid nobody_req(1) remote_of_meta ok_meta_abc]
  from t3 nobody_req(2)
  have c: "puts (calls (handler P0 env0 (remote_of resp_meta_abc resp_created) req_post_nobody)) = []"
    by blast
  from a b c run_abc_wire run_no_sha_wire env0_valid post_req(1,2) nobody_req(1,2)
    ok_meta_abc ok_meta_no_sha
  show ?thesis
    by blast
qed


end
